theory Spec2Isabelle
  imports Complex_Main "HOL-Library.Product_Order"
begin

section \<open>Python values shared by the embedding\<close>

text \<open>
  The exceptions of \<^verbatim>\<open>SimPEG/Parallel.py\<close> that the embedding distinguishes.
  \<open>SchedulerError\<close> is the \<^verbatim>\<open>Exception('Scheduler must run over slice or None!')\<close>
  of \<^verbatim>\<open>SystemSolver.__call__\<close>, \<open>NoEnginesRegistered\<close> is raised by the \<^verbatim>\<open>ipyparallel\<close>
  client, \<open>FactoryError\<close> stands for what a user-supplied factory raises; the others are
  the interpreter's own.
\<close>

datatype error =
    TypeError | KeyError | NameError | AttributeError | ValueError | IndexError | ImportError
  | NoEnginesRegistered | SchedulerError | FactoryError

text \<open>
  A Python \<^verbatim>\<open>slice(start, stop, step)\<close> whose fields are integers or \<^verbatim>\<open>None\<close>.
\<close>

datatype slice = Slice (sl_start: "int option") (sl_stop: "int option") (sl_step: "int option")

section \<open>Work partitioning\<close>

text \<open>
  \<^verbatim>\<open>
  def _subSlice(insl,  chunks=1):
      start = insl.start or 0
      nproblems = insl.stop - start
      return [slice(start + i*nproblems/chunks, start + (i+1)*nproblems/chunks)
              for i in xrange(chunks)]
  \<close>
  The module is Python 2 (\<^verbatim>\<open>xrange\<close>), so \<^verbatim>\<open>/\<close> on integers is floor division,
  which is \<open>div\<close> on \<open>int\<close>. \<^verbatim>\<open>insl.start or 0\<close> is \<open>0\<close> when the start is
  \<^verbatim>\<open>None\<close> (or \<open>0\<close>); \<^verbatim>\<open>None - 0\<close> raises \<^verbatim>\<open>TypeError\<close>, before the
  comprehension runs. \<^verbatim>\<open>xrange(chunks)\<close> is empty for \<open>chunks \<le> 0\<close>.
\<close>

definition start_or_0 :: "slice \<Rightarrow> int" where
  "start_or_0 insl = (case sl_start insl of None \<Rightarrow> 0 | Some s \<Rightarrow> s)"

definition subSlice :: "slice \<Rightarrow> int \<Rightarrow> error + slice list" where
  "subSlice insl chunks =
     (let start = start_or_0 insl in
      case sl_stop insl of
        None \<Rightarrow> Inl TypeError
      | Some e \<Rightarrow>
          (let nproblems = e - start in
           Inr (map (\<lambda>i. Slice (Some (start + (i * nproblems) div chunks))
                              (Some (start + ((i + 1) * nproblems) div chunks)) None)
                    [0..chunks - 1])))"

text \<open>
  The partition as the specification words it, for comparison with \<open>subSlice\<close>:
  boundaries \<open>start + round(i\<cdot>W/c)\<close> for \<open>i \<in> [0, c]\<close>, \<open>W = stop - start\<close>.
  \<open>round\<close> is rounding to the nearest integer; the comparison below is made where
  no boundary is a tie, so the tie-breaking rule plays no part.
\<close>

definition round_boundary :: "int \<Rightarrow> int \<Rightarrow> int \<Rightarrow> int \<Rightarrow> int" where
  "round_boundary start W c i = start + round (real_of_int (i * W) / real_of_int c)"

definition subSlice_round_spec :: "int \<Rightarrow> int \<Rightarrow> int \<Rightarrow> slice list" where
  "subSlice_round_spec start stop c =
     map (\<lambda>i. Slice (Some (round_boundary start (stop - start) c i))
                    (Some (round_boundary start (stop - start) c (i + 1))) None)
         [0..c - 1]"

section \<open>Endpoint: the per-worker namespace\<close>

text \<open>
  The attributes of class \<^verbatim>\<open>Endpoint\<close> that its set-up methods read and write.
  Dictionaries are maps. Configuration values (type \<open>'v\<close>), subproblems (\<open>'p\<close>),
  surveys (\<open>'s\<close>) and field containers (\<open>'f\<close>) are opaque to the orchestrator.
  \<^verbatim>\<open>fieldspec\<close> is \<^verbatim>\<open>None\<close> or a dictionary from field names to nullary
  constructors; it is iterated, so it is an association list, read with \<open>map_of\<close>.
  The factories are user-supplied callables and may raise.
\<close>

record ('v, 'p, 's, 'f) endpoint =
  problemFactory :: "(string \<rightharpoonup> 'v) \<Rightarrow> error + 'p"
  localFields :: "string \<rightharpoonup> 'f"
  globalFields :: "string \<rightharpoonup> 'f"
  localProblems :: "'v \<rightharpoonup> 'p"
  localSurveys :: "'v \<rightharpoonup> 's"
  fieldspec :: "(string \<times> (unit \<Rightarrow> 'f)) list option"
  baseSystemConfig :: "string \<rightharpoonup> 'v"

text \<open>
  \<^verbatim>\<open>
  def setupLocalFields(self, whichfields=None):
      if whichfields is None:
          self.localFields = {}
      if getattr(self, 'fieldspec', None) is not None:
          for fn in (whichfields or self.fieldspec):
              self.localFields[fn] = self.fieldspec[fn]()
  \<close>
  \<open>construct_fields\<close> is the loop: \<^verbatim>\<open>self.fieldspec[fn]\<close> raises \<^verbatim>\<open>KeyError\<close>
  for a name that is not in \<^verbatim>\<open>fieldspec\<close>. \<^verbatim>\<open>whichfields or self.fieldspec\<close> is
  \<^verbatim>\<open>whichfields\<close> only when that is a non-empty list: \<^verbatim>\<open>None\<close> and \<^verbatim>\<open>[]\<close> are
  both false, and iterating the dictionary yields its keys.
\<close>

fun construct_fields ::
  "(string \<times> (unit \<Rightarrow> 'f)) list \<Rightarrow> string list \<Rightarrow> (string \<rightharpoonup> 'f) \<Rightarrow> error + (string \<rightharpoonup> 'f)"
where
  "construct_fields spec [] lf = Inr lf"
| "construct_fields spec (fn # fns) lf =
     (case map_of spec fn of
        None \<Rightarrow> Inl KeyError
      | Some ctor \<Rightarrow> construct_fields spec fns (lf(fn \<mapsto> ctor ())))"

definition names_or_fieldspec ::
  "string list option \<Rightarrow> (string \<times> (unit \<Rightarrow> 'f)) list \<Rightarrow> string list" where
  "names_or_fieldspec whichfields spec =
     (case whichfields of
        None \<Rightarrow> map fst spec
      | Some [] \<Rightarrow> map fst spec
      | Some (n # ns) \<Rightarrow> n # ns)"

definition setupLocalFields ::
  "('v, 'p, 's, 'f) endpoint \<Rightarrow> string list option \<Rightarrow> error + ('v, 'p, 's, 'f) endpoint" where
  "setupLocalFields ep whichfields =
     (let ep1 = (if whichfields = None then ep\<lparr>localFields := Map.empty\<rparr> else ep) in
      case fieldspec ep1 of
        None \<Rightarrow> Inr ep1
      | Some spec \<Rightarrow>
          (case construct_fields spec (names_or_fieldspec whichfields spec) (localFields ep1) of
             Inl e \<Rightarrow> Inl e
           | Inr lf \<Rightarrow> Inr (ep1\<lparr>localFields := lf\<rparr>)))"

text \<open>
  \<^verbatim>\<open>
  def setupLocalProblem(self, subConfig):
      systemConfig = {key: self.baseSystemConfig[key]
                      for key in self.baseSystemConfig if key not in ['geom']}
      systemConfig.update(subConfig)
      problem = self.problemFactory(systemConfig)
      problem.pair(self.localSurveys[subConfig['isub']])
      self.localProblems[subConfig['tag']] = problem
  \<close>
  \<^verbatim>\<open>pair\<close> is a method of the subproblem class, which is not part of this module: it
  is a parameter, returning the paired subproblem or raising. The dictionary
  look-ups raise \<^verbatim>\<open>KeyError\<close> in the order the source evaluates them. The last line
  is an unconditional item assignment.
\<close>

definition systemConfig_of :: "(string \<rightharpoonup> 'v) \<Rightarrow> (string \<rightharpoonup> 'v) \<Rightarrow> (string \<rightharpoonup> 'v)" where
  "systemConfig_of base subConfig = (base |` (- {''geom''})) ++ subConfig"

definition setupLocalProblem ::
  "('p \<Rightarrow> 's \<Rightarrow> error + 'p) \<Rightarrow> ('v, 'p, 's, 'f) endpoint \<Rightarrow> (string \<rightharpoonup> 'v)
     \<Rightarrow> error + ('v, 'p, 's, 'f) endpoint" where
  "setupLocalProblem pair ep subConfig =
     (case problemFactory ep (systemConfig_of (baseSystemConfig ep) subConfig) of
        Inl e \<Rightarrow> Inl e
      | Inr problem \<Rightarrow>
     (case subConfig ''isub'' of
        None \<Rightarrow> Inl KeyError
      | Some isub \<Rightarrow>
     (case localSurveys ep isub of
        None \<Rightarrow> Inl KeyError
      | Some survey \<Rightarrow>
     (case pair problem survey of
        Inl e \<Rightarrow> Inl e
      | Inr paired \<Rightarrow>
     (case subConfig ''tag'' of
        None \<Rightarrow> Inl KeyError
      | Some tag \<Rightarrow> Inr (ep\<lparr>localProblems := (localProblems ep)(tag \<mapsto> paired)\<rparr>))))))"

text \<open>A sequence of \<^verbatim>\<open>setupLocalProblem\<close> calls on one Endpoint; the first exception ends it.\<close>

fun setupLocalProblems ::
  "('p \<Rightarrow> 's \<Rightarrow> error + 'p) \<Rightarrow> ('v, 'p, 's, 'f) endpoint \<Rightarrow> (string \<rightharpoonup> 'v) list
     \<Rightarrow> error + ('v, 'p, 's, 'f) endpoint" where
  "setupLocalProblems pair ep [] = Inr ep"
| "setupLocalProblems pair ep (sc # scs) =
     (case setupLocalProblem pair ep sc of
        Inl e \<Rightarrow> Inl e
      | Inr ep' \<Rightarrow> setupLocalProblems pair ep' scs)"

text \<open>
  A concrete Endpoint for the examples: configuration values are natural numbers, a
  survey is a name, a subproblem is the frequency it was configured with together with
  the survey it is paired with (none at construction).
\<close>

definition freq_factory :: "(string \<rightharpoonup> nat) \<Rightarrow> error + (nat \<times> string option)" where
  "freq_factory cfg = (case cfg ''freq'' of None \<Rightarrow> Inl FactoryError | Some f \<Rightarrow> Inr (f, None))"

definition pair_survey :: "nat \<times> string option \<Rightarrow> string \<Rightarrow> error + (nat \<times> string option)" where
  "pair_survey problem survey = Inr (fst problem, Some survey)"

definition ep_demo :: "(nat, nat \<times> string option, string, nat list) endpoint" where
  "ep_demo = \<lparr> problemFactory = freq_factory,
               localFields = [''old'' \<mapsto> [1, 2], ''u'' \<mapsto> [3]],
               globalFields = Map.empty,
               localProblems = Map.empty,
               localSurveys = [0 \<mapsto> ''survey0''],
               fieldspec = Some [(''u'', \<lambda>_. []), (''v'', \<lambda>_. [])],
               baseSystemConfig = [''geom'' \<mapsto> 9, ''freq'' \<mapsto> 1] \<rparr>"

definition subConfig_a :: "string \<rightharpoonup> nat" where
  "subConfig_a = [''isub'' \<mapsto> 0, ''tag'' \<mapsto> 7, ''freq'' \<mapsto> 10]"

definition subConfig_b :: "string \<rightharpoonup> nat" where
  "subConfig_b = [''isub'' \<mapsto> 0, ''tag'' \<mapsto> 7, ''freq'' \<mapsto> 20]"

section \<open>Remote Interface: transport selection\<close>

text \<open>
  The part of \<^verbatim>\<open>RemoteInterface.__init__\<close> that ends with the assignment of
  \<^verbatim>\<open>self.useMPI\<close>:
  \<^verbatim>\<open>
  DEFAULT_MPI = True
  MPI_BELLWETHERS = ['PMI_SIZE', 'OMPI_UNIVERSE_SIZE']
  ...
  pclient = Client(**pupdate)
  if not self._cdSame(pclient): ...          # dview = rc[:]
  dview = pclient[:]
  ...
  parMPISetup = '''
  from mpi4py import MPI
  comm = MPI.COMM_WORLD
  rank = comm.Get_rank()'''
  ...
  self.e0 = pclient[0]
  self.e0.block = True

  self.useMPI = False
  MPI = DEFAULT_MPI if MPI is None else MPI
  if MPI:
      MPISafe = False
      for var in MPI_BELLWETHERS:
          MPISafe = MPISafe or all(dview['os.getenv("%s")'%(var,)])
      if MPISafe:
          for command in parMPISetup.strip().split('\n'):
              dview.execute(command.strip())
          ranks = dview['rank']
          reorder = [ranks.index(i) for i in xrange(len(ranks))]
          dview = pclient[reorder]
          dview.block = True
          dview.activate()
          self.e0 = pclient[reorder[0]]
          self.e0.block = True
          self.comm = Reference('comm')
      self.useMPI = MPISafe
  \<close>
  The cluster is the list of its engines, in the order of \<^verbatim>\<open>pclient.ids\<close>. An engine
  has its id, its environment (\<^verbatim>\<open>os.getenv\<close> returns the string or \<^verbatim>\<open>None\<close>), and what
  the MPI set-up gives when it is run there: \<^verbatim>\<open>from mpi4py import MPI\<close> raises
  \<^verbatim>\<open>ImportError\<close> (no rank), or \<^verbatim>\<open>comm.Get_rank()\<close> returns the rank of the engine's
  process.

  Indexing the client builds a view on the engines with the given ids: with no
  engine at all it raises \<^verbatim>\<open>NoEnginesRegistered\<close> (first in \<^verbatim>\<open>_cdSame\<close>), with an id
  that no engine has it raises \<^verbatim>\<open>IndexError\<close>. \<^verbatim>\<open>ranks.index(i)\<close> is the first
  position of \<open>i\<close> and raises \<^verbatim>\<open>ValueError\<close> when there is none. \<^verbatim>\<open>all\<close> tests truth:
  \<^verbatim>\<open>None\<close> and the empty string are false.
\<close>

type_synonym environ = "string \<rightharpoonup> string"

record worker =
  w_id :: nat
  w_environ :: environ
  w_mpi_rank :: "nat option"

definition DEFAULT_MPI :: bool where
  "DEFAULT_MPI = True"

definition MPI_BELLWETHERS :: "string list" where
  "MPI_BELLWETHERS = [''PMI_SIZE'', ''OMPI_UNIVERSE_SIZE'']"

definition getenv_truthy :: "environ \<Rightarrow> string \<Rightarrow> bool" where
  "getenv_truthy env var = (case env var of None \<Rightarrow> False | Some s \<Rightarrow> s \<noteq> [])"

fun MPISafe_loop :: "environ list \<Rightarrow> string list \<Rightarrow> bool \<Rightarrow> bool" where
  "MPISafe_loop envs [] safe = safe"
| "MPISafe_loop envs (var # vars) safe =
     MPISafe_loop envs vars (safe \<or> list_all (\<lambda>env. getenv_truthy env var) envs)"

fun index_of :: "'a list \<Rightarrow> 'a \<Rightarrow> nat option" where
  "index_of [] x = None"
| "index_of (y # ys) x = (if y = x then Some 0 else map_option Suc (index_of ys x))"

text \<open>
  The body of \<^verbatim>\<open>if MPISafe:\<close> up to the new direct view: the set-up commands on every
  engine, the ranks, the reordering, and the view on the engines whose ids are the
  entries of \<^verbatim>\<open>reorder\<close>. (\<^verbatim>\<open>reorder[0]\<close> is then the id of an engine.)
\<close>

definition mpi_setup :: "worker list \<Rightarrow> error + nat list" where
  "mpi_setup workers =
     (case those (map w_mpi_rank workers) of
        None \<Rightarrow> Inl ImportError
      | Some ranks \<Rightarrow>
          (case those (map (index_of ranks) [0..<length ranks]) of
             None \<Rightarrow> Inl ValueError
           | Some reorder \<Rightarrow>
               if list_all (\<lambda>t. t \<in> set (map w_id workers)) reorder then Inr reorder
               else Inl IndexError))"

definition useMPI_init :: "bool option \<Rightarrow> worker list \<Rightarrow> error + bool" where
  "useMPI_init MPI workers =
     (if workers = [] then Inl NoEnginesRegistered
      else if 0 \<notin> set (map w_id workers) then Inl IndexError
      else
        (let mpi = (case MPI of None \<Rightarrow> DEFAULT_MPI | Some b \<Rightarrow> b) in
         if mpi then
           (let MPISafe = MPISafe_loop (map w_environ workers) MPI_BELLWETHERS False in
            if MPISafe then
              (case mpi_setup workers of Inl e \<Rightarrow> Inl e | Inr reorder \<Rightarrow> Inr MPISafe)
            else Inr MPISafe)
         else Inr False))"

text \<open>
  The condition as the specification words it, for comparison: every worker has at
  least one of the two indicators set in its environment.
\<close>

definition has_indicator :: "environ \<Rightarrow> bool" where
  "has_indicator env = (env ''PMI_SIZE'' \<noteq> None \<or> env ''OMPI_UNIVERSE_SIZE'' \<noteq> None)"

definition every_worker_has_indicator :: "worker list \<Rightarrow> bool" where
  "every_worker_has_indicator workers = list_all (\<lambda>w. has_indicator (w_environ w)) workers"



definition singleton_cluster :: "worker list" where
  "singleton_cluster =
     [\<lparr> w_id = 0, w_environ = [''PMI_SIZE'' \<mapsto> ''1''], w_mpi_rank = Some 0 \<rparr>,
      \<lparr> w_id = 1, w_environ = [''PMI_SIZE'' \<mapsto> ''1''], w_mpi_rank = Some 0 \<rparr>]"

section \<open>Remote Interface: the workers' namespaces and the collectives\<close>

subsection \<open>Namespaces\<close>

text \<open>
  What a name of a worker's interactive namespace can hold, as far as this module
  makes it: \<^verbatim>\<open>None\<close>, a value of the numeric type \<open>'a\<close> (a numpy scalar or array;
  its Python operators are the operators of \<open>'a\<close>), or the list that
  \<^verbatim>\<open>comm.gather\<close> and a pull through the direct view return.

  A constructed \<^verbatim>\<open>RemoteInterface\<close> has the worker \<^verbatim>\<open>e0\<close> (\<^verbatim>\<open>pclient[0]\<close>, or the
  worker of MPI rank \<open>0\<close> after the reordering of \<^verbatim>\<open>__init__\<close>) and the direct
  view \<^verbatim>\<open>dview\<close> over all the workers, \<^verbatim>\<open>e0\<close> first. In collective mode the position
  in \<^verbatim>\<open>dview\<close> is the MPI rank, so \<^verbatim>\<open>e0\<close> is the root of every collective.
\<close>

datatype 'a pyval = PyNone | Val 'a | Gathered "'a pyval list"

type_synonym 'a namespace = "string \<rightharpoonup> 'a pyval"

record 'a cluster =
  e0 :: "'a namespace"
  others :: "'a namespace list"

definition dview :: "'a cluster \<Rightarrow> 'a namespace list" where
  "dview cl = e0 cl # others cl"

definition temp :: "string \<Rightarrow> string" where
  "temp key = ''temp_'' @ key"

text \<open>
  Reading a name on one worker raises \<^verbatim>\<open>NameError\<close> when it is not bound;
  \<^verbatim>\<open>del\<close> of a name that is not bound does the same. A statement run on the whole
  direct view fails when it fails on one worker; the embedding then returns the
  first error only.
\<close>

definition eval_name :: "'a namespace \<Rightarrow> string \<Rightarrow> error + 'a pyval" where
  "eval_name ns key = (case ns key of None \<Rightarrow> Inl NameError | Some v \<Rightarrow> Inr v)"

definition del_name :: "string \<Rightarrow> 'a namespace \<Rightarrow> error + 'a namespace" where
  "del_name key ns = (case ns key of None \<Rightarrow> Inl NameError | Some v \<Rightarrow> Inr (ns(key := None)))"

fun all_ok :: "(error + 'b) list \<Rightarrow> error + 'b list" where
  "all_ok [] = Inr []"
| "all_ok (r # rs) =
     (case r of
        Inl e \<Rightarrow> Inl e
      | Inr x \<Rightarrow> (case all_ok rs of Inl e \<Rightarrow> Inl e | Inr xs \<Rightarrow> Inr (x # xs)))"

text \<open>\<^verbatim>\<open>dview[key]\<close>, \<^verbatim>\<open>dview[key] = item\<close>, \<^verbatim>\<open>e0[key]\<close>, \<^verbatim>\<open>e0[key] = item\<close>.\<close>

definition dview_pull :: "'a cluster \<Rightarrow> string \<Rightarrow> error + 'a pyval list" where
  "dview_pull cl key = all_ok (map (\<lambda>ns. eval_name ns key) (dview cl))"

definition dview_push :: "string \<Rightarrow> 'a pyval \<Rightarrow> 'a cluster \<Rightarrow> 'a cluster" where
  "dview_push key item cl =
     \<lparr> e0 = (e0 cl)(key \<mapsto> item), others = map (\<lambda>ns. ns(key \<mapsto> item)) (others cl) \<rparr>"

definition e0_pull :: "'a cluster \<Rightarrow> string \<Rightarrow> error + 'a pyval" where
  "e0_pull cl key = eval_name (e0 cl) key"

definition e0_push :: "string \<Rightarrow> 'a pyval \<Rightarrow> 'a cluster \<Rightarrow> 'a cluster" where
  "e0_push key item cl = cl\<lparr> e0 := (e0 cl)(key \<mapsto> item) \<rparr>"

text \<open>\<^verbatim>\<open>dview.execute('del name')\<close> and \<^verbatim>\<open>e0.execute('del name')\<close>.\<close>

definition dview_del :: "string \<Rightarrow> 'a cluster \<Rightarrow> error + 'a cluster" where
  "dview_del key cl =
     (case del_name key (e0 cl) of
        Inl e \<Rightarrow> Inl e
      | Inr ns0 \<Rightarrow>
          (case all_ok (map (del_name key) (others cl)) of
             Inl e \<Rightarrow> Inl e
           | Inr nss \<Rightarrow> Inr \<lparr> e0 = ns0, others = nss \<rparr>))"

definition e0_del :: "string \<Rightarrow> 'a cluster \<Rightarrow> error + 'a cluster" where
  "e0_del key cl =
     (case del_name key (e0 cl) of Inl e \<Rightarrow> Inl e | Inr ns0 \<Rightarrow> Inr (cl\<lparr> e0 := ns0 \<rparr>))"

subsection \<open>Arithmetic on namespace values\<close>

text \<open>
  A binary operator of Python or numpy applied to two namespace values: it is the
  operator of \<open>'a\<close> on two numeric values, and \<^verbatim>\<open>TypeError\<close> when an operand is
  \<^verbatim>\<open>None\<close>. An operand that is a gathered list is outside the embedding (Python
  concatenates two lists where numpy adds them element by element); it is given
  \<^verbatim>\<open>TypeError\<close> too, and no property below has such an operand.
\<close>

fun binop :: "('a \<Rightarrow> 'a \<Rightarrow> 'a) \<Rightarrow> 'a pyval \<Rightarrow> 'a pyval \<Rightarrow> error + 'a pyval" where
  "binop f (Val a) (Val b) = Inr (Val (f a b))"
| "binop f x y = Inl TypeError"

definition np_add :: "'a::plus pyval \<Rightarrow> 'a pyval \<Rightarrow> error + 'a pyval" where
  "np_add = binop (+)"

text \<open>
  \<^verbatim>\<open>reduce(np.add, xs)\<close>, the built-in of Python 2: \<^verbatim>\<open>TypeError\<close> on the empty list,
  the only element (untouched) of a one-element list, the fold from the left
  otherwise.
\<close>

fun fold_add :: "'a::plus pyval \<Rightarrow> 'a pyval list \<Rightarrow> error + 'a pyval" where
  "fold_add acc [] = Inr acc"
| "fold_add acc (x # xs) =
     (case np_add acc x of Inl e \<Rightarrow> Inl e | Inr s \<Rightarrow> fold_add s xs)"

definition reduce_np_add :: "'a::plus pyval list \<Rightarrow> error + 'a pyval" where
  "reduce_np_add xs = (case xs of [] \<Rightarrow> Inl TypeError | x # rest \<Rightarrow> fold_add x rest)"

subsection \<open>The statements run on the workers in collective mode\<close>

text \<open>
  The three collectives of \<^verbatim>\<open>mpi4py\<close> that the module's code strings call, each
  executed on every worker of the direct view:
  \<^item> \<^verbatim>\<open>target = comm.reduce(key, root=0)\<close>: the root receives the sum (\<^verbatim>\<open>MPI.SUM\<close>,
    Python's \<^verbatim>\<open>+\<close>) of the workers' values in rank order, every other worker
    receives \<^verbatim>\<open>None\<close>;
  \<^item> \<^verbatim>\<open>target = None; target = comm.gather(key, root=0)\<close>: the root receives the
    list of the workers' values, every other worker \<^verbatim>\<open>None\<close>;
  \<^item> \<^verbatim>\<open>if rank != 0: key = None\<close>, then \<^verbatim>\<open>key = comm.bcast(key, root=0)\<close>: every
    worker receives the root's value of \<^verbatim>\<open>key\<close>, which must be bound on the root.
\<close>

definition comm_reduce :: "string \<Rightarrow> string \<Rightarrow> 'a::plus cluster \<Rightarrow> error + 'a cluster" where
  "comm_reduce target key cl =
     (case dview_pull cl key of
        Inl e \<Rightarrow> Inl e
      | Inr vs \<Rightarrow>
          (case reduce_np_add vs of
             Inl e \<Rightarrow> Inl e
           | Inr summed \<Rightarrow>
               Inr \<lparr> e0 = (e0 cl)(target \<mapsto> summed),
                     others = map (\<lambda>ns. ns(target \<mapsto> PyNone)) (others cl) \<rparr>))"

definition comm_gather :: "string \<Rightarrow> string \<Rightarrow> 'a cluster \<Rightarrow> error + 'a cluster" where
  "comm_gather target key cl =
     (case dview_pull cl key of
        Inl e \<Rightarrow> Inl e
      | Inr vs \<Rightarrow>
          Inr \<lparr> e0 = (e0 cl)(target \<mapsto> Gathered vs),
                others = map (\<lambda>ns. ns(target \<mapsto> PyNone)) (others cl) \<rparr>)"

definition comm_bcast :: "string \<Rightarrow> 'a cluster \<Rightarrow> error + 'a cluster" where
  "comm_bcast key cl =
     (case e0_pull cl key of Inl e \<Rightarrow> Inl e | Inr v \<Rightarrow> Inr (dview_push key v cl))"

text \<open>
  \<^verbatim>\<open>e0.execute('target = x op y')\<close>: both names are read on \<^verbatim>\<open>e0\<close>, left one first.
\<close>

definition e0_binop ::
  "('a \<Rightarrow> 'a \<Rightarrow> 'a) \<Rightarrow> string \<Rightarrow> string \<Rightarrow> string \<Rightarrow> 'a cluster \<Rightarrow> error + 'a cluster" where
  "e0_binop f target x y cl =
     (case e0_pull cl x of
        Inl e \<Rightarrow> Inl e
      | Inr a \<Rightarrow>
          (case e0_pull cl y of
             Inl e \<Rightarrow> Inl e
           | Inr b \<Rightarrow>
               (case binop f a b of
                  Inl e \<Rightarrow> Inl e
                | Inr r \<Rightarrow> Inr (e0_push target r cl))))"

text \<open>Sequencing of statements that may raise.\<close>

definition andthen :: "error + 'b \<Rightarrow> ('b \<Rightarrow> error + 'c) \<Rightarrow> error + 'c" where
  "andthen r f = (case r of Inl e \<Rightarrow> Inl e | Inr x \<Rightarrow> f x)"

subsection \<open>The methods of the Remote Interface\<close>

text \<open>
  Each method takes \<^verbatim>\<open>self.useMPI\<close> and the cluster, and returns the cluster after
  it, with the returned item when the method returns one.

  \<^verbatim>\<open>
  def __setitem__(self, key, item):
      if self.useMPI:
          self.e0[key] = item
          code = 'if rank != 0: %(key)s = None\n%(key)s = comm.bcast(%(key)s, root=0)'
          self.dview.execute(code%{'key': key})
      else:
          self.dview[key] = item
  \<close>
\<close>

definition setitem :: "bool \<Rightarrow> string \<Rightarrow> 'a pyval \<Rightarrow> 'a cluster \<Rightarrow> error + 'a cluster" where
  "setitem useMPI key item cl =
     (if useMPI then comm_bcast key (e0_push key item cl)
      else Inr (dview_push key item cl))"

text \<open>
  \<^verbatim>\<open>
  def __getitem__(self, key):
      if self.useMPI:
          code = 'temp_%(key)s = None\ntemp_%(key)s = comm.gather(%(key)s, root=%(root)d)'
          self.dview.execute(code%{'key': key, 'root': 0})
          item = self.e0['temp_%s'%(key,)]
          self.e0.execute('del temp_%s'%(key,))
      else:
          item = self.dview[key]
      return item
  \<close>
\<close>

definition getitem :: "bool \<Rightarrow> string \<Rightarrow> 'a cluster \<Rightarrow> error + 'a pyval \<times> 'a cluster" where
  "getitem useMPI key cl =
     (if useMPI then
        andthen (comm_gather (temp key) key cl) (\<lambda>cl1.
        andthen (e0_pull cl1 (temp key)) (\<lambda>item.
        andthen (e0_del (temp key) cl1) (\<lambda>cl2.
        Inr (item, cl2))))
      else
        andthen (dview_pull cl key) (\<lambda>items. Inr (Gathered items, cl)))"

text \<open>
  \<^verbatim>\<open>
  def reduce(self, key, axis=None):
      if self.useMPI:
          code = 'temp_%(key)s = comm.reduce(%(key)s, root=%(root)d)'
          self.dview.execute(code%{'key': key, 'root': 0})
          item = self.e0['temp_%s'%(key,)]
          self.dview.execute('del temp_%s'%(key,))
      else:
          item = reduce(np.add, self.dview[key])
      return item
  \<close>
  (\<^verbatim>\<open>axis\<close> is read only by code that is commented out.)
\<close>

definition reduce :: "bool \<Rightarrow> string \<Rightarrow> 'a::plus cluster \<Rightarrow> error + 'a pyval \<times> 'a cluster" where
  "reduce useMPI key cl =
     (if useMPI then
        andthen (comm_reduce (temp key) key cl) (\<lambda>cl1.
        andthen (e0_pull cl1 (temp key)) (\<lambda>item.
        andthen (dview_del (temp key) cl1) (\<lambda>cl2.
        Inr (item, cl2))))
      else
        andthen (dview_pull cl key) (\<lambda>items.
        andthen (reduce_np_add items) (\<lambda>item. Inr (item, cl))))"

text \<open>
  \<^verbatim>\<open>
  def reduceMul(self, key1, key2, axis=None):
      if self.useMPI:
          code_reduce = 'temp_%(key)s = comm.reduce(%(key)s, root=%(root)d)'
          self.dview.execute(code_reduce%{'key': key1, 'root': 0})
          self.dview.execute(code_reduce%{'key': key2, 'root': 0})
          code_mul = 'temp_%(key1)s%(key2)s = temp_%(key1)s * temp_%(key2)s'
          self.e0.execute(code_mul%{'key1': key1, 'key2': key2})
          if axis is not None:
              code = 'temp_%(key1)s%(key2)s = temp_%(key1)s%(key2)s.sum(axis=%(axis)d)'
              self.e0.execute(code%{'key1': key1, 'key2': key2, 'axis': axis})
          item = self.e0['temp_%(key1)s%(key2)s'%{'key1': key1, 'key2': key2}]
          self.dview.execute('del temp_%s'%(key1,))
          self.dview.execute('del temp_%s'%(key2,))
          self.e0.execute('del temp_%(key1)s%(key2)s'%{'key1': key1, 'key2': key2})
      else:
          item1 = reduce(np.add, self.dview[key1])
          item2 = reduce(np.add, self.dview[key2])
          item = item1 * item2
      return item
  \<close>
  \<^verbatim>\<open>x.sum(axis=n)\<close> is a method of the array type: it is the parameter \<open>sum_axis\<close>,
  which gives no result where numpy raises (an axis that the array does not have,
  a \<^verbatim>\<open>ValueError\<close>). On \<^verbatim>\<open>None\<close> and on a list the attribute look-up raises
  \<^verbatim>\<open>AttributeError\<close>. In star mode the method does not read \<^verbatim>\<open>axis\<close>.
\<close>

definition method1 :: "('a \<Rightarrow> 'a option) \<Rightarrow> 'a pyval \<Rightarrow> error + 'a pyval" where
  "method1 f x =
     (case x of
        Val a \<Rightarrow> (case f a of None \<Rightarrow> Inl ValueError | Some r \<Rightarrow> Inr (Val r))
      | _ \<Rightarrow> Inl AttributeError)"

definition e0_method1 :: "('a \<Rightarrow> 'a option) \<Rightarrow> string \<Rightarrow> 'a cluster \<Rightarrow> error + 'a cluster" where
  "e0_method1 f name cl =
     andthen (e0_pull cl name) (\<lambda>x.
     andthen (method1 f x) (\<lambda>r. Inr (e0_push name r cl)))"

definition reduceMul ::
  "(int \<Rightarrow> 'a \<Rightarrow> 'a option) \<Rightarrow> bool \<Rightarrow> string \<Rightarrow> string \<Rightarrow> int option \<Rightarrow> 'a::{plus,times} cluster
     \<Rightarrow> error + 'a pyval \<times> 'a cluster" where
  "reduceMul sum_axis useMPI key1 key2 axis cl =
     (if useMPI then
        andthen (comm_reduce (temp key1) key1 cl) (\<lambda>cl1.
        andthen (comm_reduce (temp key2) key2 cl1) (\<lambda>cl2.
        andthen (e0_binop (*) (temp (key1 @ key2)) (temp key1) (temp key2) cl2) (\<lambda>cl3.
        andthen (case axis of None \<Rightarrow> Inr cl3
                 | Some n \<Rightarrow> e0_method1 (sum_axis n) (temp (key1 @ key2)) cl3) (\<lambda>cl4.
        andthen (e0_pull cl4 (temp (key1 @ key2))) (\<lambda>item.
        andthen (dview_del (temp key1) cl4) (\<lambda>cl5.
        andthen (dview_del (temp key2) cl5) (\<lambda>cl6.
        andthen (e0_del (temp (key1 @ key2)) cl6) (\<lambda>cl7.
        Inr (item, cl7)))))))))
      else
        andthen (dview_pull cl key1) (\<lambda>items1.
        andthen (reduce_np_add items1) (\<lambda>item1.
        andthen (dview_pull cl key2) (\<lambda>items2.
        andthen (reduce_np_add items2) (\<lambda>item2.
        andthen (binop (*) item1 item2) (\<lambda>item. Inr (item, cl)))))))"

text \<open>
  \<^verbatim>\<open>
  def remoteDifference(self, key1, key2, keyresult):
      if self.useMPI:
          root = 0
          code_reduce = 'temp_%(key)s = comm.reduce(%(key)s, root=%(root)d)'
          self.dview.execute(code_reduce%{'key': key1, 'root': root})
          self.dview.execute(code_reduce%{'key': key2, 'root': root})
          code_difference = '%(keyresult)s = temp_%(key1)s - temp_%(key2)s'
          self.e0.execute(code_difference%{'key1': key1, 'key2': key2, 'keyresult': keyresult})
          code = 'if rank != 0: %(key)s = None\n%(key)s = comm.bcast(%(key)s, root=%(root)d)'
          self.dview.execute(code%{'key': keyresult, 'root': root})
          self.e0.execute('del temp_%s'%(key1,))
          self.e0.execute('del temp_%s'%(key2,))
      else:
          item1 = reduce(np.add, self.dview[key1])
          item2 = reduce(np.add, self.dview[key2])
          item = item1 - item2
          self.dview[keyresult] = item
  \<close>
\<close>

definition remoteDifference ::
  "bool \<Rightarrow> string \<Rightarrow> string \<Rightarrow> string \<Rightarrow> 'a::{plus,minus} cluster \<Rightarrow> error + 'a cluster" where
  "remoteDifference useMPI key1 key2 keyresult cl =
     (if useMPI then
        andthen (comm_reduce (temp key1) key1 cl) (\<lambda>cl1.
        andthen (comm_reduce (temp key2) key2 cl1) (\<lambda>cl2.
        andthen (e0_binop (-) keyresult (temp key1) (temp key2) cl2) (\<lambda>cl3.
        andthen (comm_bcast keyresult cl3) (\<lambda>cl4.
        andthen (e0_del (temp key1) cl4) (\<lambda>cl5.
        e0_del (temp key2) cl5)))))
      else
        andthen (dview_pull cl key1) (\<lambda>items1.
        andthen (reduce_np_add items1) (\<lambda>item1.
        andthen (dview_pull cl key2) (\<lambda>items2.
        andthen (reduce_np_add items2) (\<lambda>item2.
        andthen (binop (-) item1 item2) (\<lambda>item.
        Inr (dview_push keyresult item cl)))))))"

text \<open>
  \<^verbatim>\<open>
  def remoteOpGatherFirst(self, op, key1, key2, keyresult):
      if self.useMPI:
          root = 0
          code_reduce = 'temp_%(key)s = comm.reduce(%(key)s, root=%(root)d)'
          self.dview.execute(code_reduce%{'key': key1, 'root': root})
          code_difference = '%(keyresult)s = temp_%(key1)s %(op)s %(key2)s'
          self.e0.execute(code_difference%{'op': op, 'key1': key1, 'key2': key2, 'keyresult': keyresult})
          code = 'if rank != 0: %(key)s = None\n%(key)s = comm.bcast(%(key)s, root=%(root)d)'
          self.dview.execute(code%{'key': keyresult, 'root': root})
          self.e0.execute('del temp_%s'%(key1,))
      else:
          item1 = reduce(np.add, self.dview[key1])
          item2 = self.e0[key2]
          item = eval('item1 %s item2'%(op,))
          self.dview[keyresult] = item
  \<close>
  \<^verbatim>\<open>op\<close> is the text of a binary operator: it is taken as the operation it denotes.
\<close>

definition remoteOpGatherFirst ::
  "bool \<Rightarrow> ('a \<Rightarrow> 'a \<Rightarrow> 'a) \<Rightarrow> string \<Rightarrow> string \<Rightarrow> string \<Rightarrow> 'a::plus cluster
     \<Rightarrow> error + 'a cluster" where
  "remoteOpGatherFirst useMPI op key1 key2 keyresult cl =
     (if useMPI then
        andthen (comm_reduce (temp key1) key1 cl) (\<lambda>cl1.
        andthen (e0_binop op keyresult (temp key1) key2 cl1) (\<lambda>cl2.
        andthen (comm_bcast keyresult cl2) (\<lambda>cl3.
        e0_del (temp key1) cl3)))
      else
        andthen (dview_pull cl key1) (\<lambda>items1.
        andthen (reduce_np_add items1) (\<lambda>item1.
        andthen (e0_pull cl key2) (\<lambda>item2.
        andthen (binop op item1 item2) (\<lambda>item.
        Inr (dview_push keyresult item cl))))))"

text \<open>
  \<^verbatim>\<open>
  def remoteSrcEstGatherFirst(self, keyresult, key1, key2, individual=False):
      if self.useMPI:
          root = 0
          # # Gather
          # code_reduce = 'temp_%(key)s = comm.reduce(%(key)s, root=%(root)d)'
          # self.dview.execute(code_reduce%{'key': key1, 'root': root})
          if individual:
              code_srcest = '%(keyresult)s = (%(key2)s.conj() * %(key1)s).sum(axis=1) / (%(key1)s.conj() * %(key1)s).sum(axis=1)'
          else:
              code_srcest = '%(keyresult)s = (%(key2)s.conj() * %(key1)s).sum() / (%(key1)s.conj() * %(key1)s).sum()'
          self.e0.execute(code_srcest%{'key1': key1, 'key2': key2, 'keyresult': keyresult})
          code = 'if rank != %(root)d: %(key)s = None\n%(key)s = comm.bcast(%(key)s, root=%(root)d)'
          self.dview.execute(code%{'key': keyresult, 'root': root})
      else:
          item1 = reduce(np.add, self.dview[key1])
          item2 = self.e0[key2]
          if individual:
              item = (item2.conj() * item1).sum(axis=1) / (item1.conj() * item1).sum(axis=1)
          else:
              item = (item2.conj() * item1).sum() / (item1.conj() * item1).sum()
          self.dview[keyresult] = item
  \<close>
  The methods \<^verbatim>\<open>conj()\<close>, \<^verbatim>\<open>sum()\<close> and \<^verbatim>\<open>sum(axis=1)\<close> of the array type are the
  fields of \<open>ops\<close>; \<open>np_sum_axis1\<close> gives no result where numpy raises (an array
  without a second axis, a \<^verbatim>\<open>ValueError\<close>). \<open>srcest\<close> is the expression, the same in
  both branches, on the values of its two operands (\<open>x1\<close> for \<^verbatim>\<open>key1\<close> or
  \<^verbatim>\<open>item1\<close>, \<open>x2\<close> for \<^verbatim>\<open>key2\<close> or \<^verbatim>\<open>item2\<close>), evaluated from the left:
  \<^verbatim>\<open>conj\<close> of \<^verbatim>\<open>None\<close> or of a list raises \<^verbatim>\<open>AttributeError\<close>, the product of an
  array and \<^verbatim>\<open>None\<close> raises \<^verbatim>\<open>TypeError\<close>. Where the denominator is zero numpy
  gives \<^verbatim>\<open>nan\<close> or \<^verbatim>\<open>inf\<close> and the division of \<open>'a\<close> gives \<open>0\<close>; the evaluations
  below have a denominator that is not zero.
\<close>

record 'a array_ops =
  np_conj :: "'a \<Rightarrow> 'a"
  np_sum :: "'a \<Rightarrow> 'a"
  np_sum_axis1 :: "'a \<Rightarrow> 'a option"

definition srcest ::
  "'a array_ops \<Rightarrow> bool \<Rightarrow> 'a::{times,inverse} pyval \<Rightarrow> 'a pyval \<Rightarrow> error + 'a pyval" where
  "srcest ops individual x1 x2 =
     (case x2 of
        Val b \<Rightarrow>
          (case x1 of
             Val a \<Rightarrow>
               (if individual then
                  (case np_sum_axis1 ops (np_conj ops b * a) of
                     None \<Rightarrow> Inl ValueError
                   | Some num \<Rightarrow>
                       (case np_sum_axis1 ops (np_conj ops a * a) of
                          None \<Rightarrow> Inl ValueError
                        | Some den \<Rightarrow> Inr (Val (num / den))))
                else
                  Inr (Val (np_sum ops (np_conj ops b * a) / np_sum ops (np_conj ops a * a))))
           | _ \<Rightarrow> Inl TypeError)
      | _ \<Rightarrow> Inl AttributeError)"

definition remoteSrcEstGatherFirst ::
  "'a array_ops \<Rightarrow> bool \<Rightarrow> string \<Rightarrow> string \<Rightarrow> string \<Rightarrow> bool \<Rightarrow> 'a::{plus,times,inverse} cluster
     \<Rightarrow> error + 'a cluster" where
  "remoteSrcEstGatherFirst ops useMPI keyresult key1 key2 individual cl =
     (if useMPI then
        andthen (e0_pull cl key2) (\<lambda>x2.
        andthen (e0_pull cl key1) (\<lambda>x1.
        andthen (srcest ops individual x1 x2) (\<lambda>item.
        comm_bcast keyresult (e0_push keyresult item cl))))
      else
        andthen (dview_pull cl key1) (\<lambda>items1.
        andthen (reduce_np_add items1) (\<lambda>item1.
        andthen (e0_pull cl key2) (\<lambda>item2.
        andthen (srcest ops individual item1 item2) (\<lambda>item.
        Inr (dview_push keyresult item cl))))))"

text \<open>
  The source estimate as the specification words it, for comparison:
  \<open>S = (conj(K2) \<cdot> reduce(K1)) / (conj(reduce(K1)) \<cdot> reduce(K1))\<close>, where
  \<open>reduce(K1)\<close> is the sum of the workers' values of \<open>K1\<close> and \<open>K2\<close> is read on
  \<^verbatim>\<open>e0\<close>, with the inner products over all axes.
\<close>

definition srcest_spec :: "'a array_ops \<Rightarrow> 'a::{monoid_add,times,inverse} list \<Rightarrow> 'a \<Rightarrow> 'a" where
  "srcest_spec ops k1s k2 =
     np_sum ops (np_conj ops k2 * sum_list k1s)
       / np_sum ops (np_conj ops (sum_list k1s) * sum_list k1s)"

text \<open>
  The examples: two workers. Numpy complex scalars, whose \<^verbatim>\<open>conj()\<close> is the complex
  conjugate, whose \<^verbatim>\<open>sum()\<close> is the scalar itself and which have no second axis;
  integers; and pairs of integers, added component by component.
\<close>

definition scalar_ops :: "complex array_ops" where
  "scalar_ops = \<lparr> np_conj = cnj, np_sum = (\<lambda>z. z), np_sum_axis1 = (\<lambda>z. None) \<rparr>"

definition srcest_cluster :: "complex cluster" where
  "srcest_cluster = \<lparr> e0 = [''d'' \<mapsto> Val 1, ''u'' \<mapsto> Val 3],
                       others = [[''d'' \<mapsto> Val 2, ''u'' \<mapsto> Val 3]] \<rparr>"

definition diff_cluster :: "int cluster" where
  "diff_cluster = \<lparr> e0 = [''a'' \<mapsto> Val 5, ''b'' \<mapsto> Val 1],
                     others = [[''a'' \<mapsto> Val 7, ''b'' \<mapsto> Val 2]] \<rparr>"

definition pair_cluster :: "(int \<times> int) cluster" where
  "pair_cluster = \<lparr> e0 = [''u'' \<mapsto> Val (1, 2)], others = [[''u'' \<mapsto> Val (3, 4)]] \<rparr>"

text \<open>The names bound on each worker of the direct view, among the given ones.\<close>

definition bound_names :: "string list \<Rightarrow> 'a cluster \<Rightarrow> string list list" where
  "bound_names names cl = map (\<lambda>ns. filter (\<lambda>n. ns n \<noteq> None) names) (dview cl)"

section \<open>Scheduler\<close>

subsection \<open>Jobs submitted to the load-balanced view\<close>

text \<open>
  A subproblem tag is a pair of integers (the labels are built with
  \<^verbatim>\<open>'%d, %d'%tag\<close>). A job handle (the \<^verbatim>\<open>AsyncResult\<close> returned by
  \<^verbatim>\<open>lview.apply\<close> or \<^verbatim>\<open>lview.map\<close>) is the position of the job in the list of
  everything submitted so far.

  What a job runs on the worker that receives it:
  \<^item> \<open>Solve f T w\<close>: \<^verbatim>\<open>endpoint.functions[f](endpoint, T, w)\<close>;
  \<^item> \<open>Clear f T r\<close>: \<^verbatim>\<open>endpoint.functions[f](endpoint, T)\<close>, or
    \<^verbatim>\<open>endpoint.functions[f](endpoint, T, r)\<close> under ensemble clear;
  \<^item> \<open>ReduceMap k n\<close>: the \<open>n\<close> tasks
    \<^verbatim>\<open>_reduceJob(i, 0, endpoint, k)\<close>, \<open>i < n\<close>, of one \<^verbatim>\<open>lview.map\<close>, which share
    one handle.

  The flags of \<^verbatim>\<open>lview.temp_flags\<close> that constrain a job: \<open>after\<close> (the handles that
  must have finished) and \<open>follow\<close> (the handles whose worker it must run on). A flag
  given as one handle is the one-element list; \<^verbatim>\<open>None\<close> and \<^verbatim>\<open>[]\<close> are the empty
  list. No other flag and no \<^verbatim>\<open>depend\<close> decorator is used by the source.
\<close>

type_synonym tag = "int \<times> int"

type_synonym jid = nat

datatype call =
    Solve string tag slice
  | Clear string tag "int option"
  | ReduceMap string nat

record job =
  j_call :: call
  j_after :: "jid list"
  j_follow :: "jid list"

subsection \<open>System graph\<close>

text \<open>
  The node labels, one constructor per format string of the source:
  \<^verbatim>\<open>'Beginning'\<close>, \<^verbatim>\<open>'Head: %d, %d'\<close>, \<^verbatim>\<open>'Compute: %d, %d, %d'\<close>,
  \<^verbatim>\<open>'Wrap: %d, %d'\<close>, \<^verbatim>\<open>'Wrap: %d, %d, %d'\<close>, \<^verbatim>\<open>'Tail: %d, %d'\<close>, \<^verbatim>\<open>'End'\<close>.
  A node carries the attributes \<^verbatim>\<open>jobs\<close>, \<^verbatim>\<open>subslice\<close>, \<^verbatim>\<open>tag\<close>, \<^verbatim>\<open>rank\<close>, each
  possibly absent. \<^verbatim>\<open>add_node\<close> updates the attributes of a node that exists,
  \<^verbatim>\<open>add_edge\<close> creates the end points that do not (as \<^verbatim>\<open>networkx.DiGraph\<close> does).
\<close>

datatype label =
    Beginning
  | Head tag
  | ComputeNode tag int
  | WrapTag tag
  | WrapNode tag int
  | Tail tag
  | EndNode

record attrs =
  a_jobs :: "jid list option"
  a_subslice :: "slice option"
  a_tag :: "tag option"
  a_rank :: "int option"

record graph =
  g_nodes :: "label \<rightharpoonup> attrs"
  g_edges :: "(label \<times> label) set"

definition no_attrs :: attrs where
  "no_attrs = \<lparr> a_jobs = None, a_subslice = None, a_tag = None, a_rank = None \<rparr>"

definition SystemGraph :: graph where
  "SystemGraph = \<lparr> g_nodes = Map.empty, g_edges = {} \<rparr>"

definition add_node :: "label \<Rightarrow> (attrs \<Rightarrow> attrs) \<Rightarrow> graph \<Rightarrow> graph" where
  "add_node n upd g =
     g\<lparr> g_nodes := (g_nodes g)(n \<mapsto> upd (case g_nodes g n of None \<Rightarrow> no_attrs | Some a \<Rightarrow> a)) \<rparr>"

definition add_edge :: "label \<Rightarrow> label \<Rightarrow> graph \<Rightarrow> graph" where
  "add_edge u v g =
     (let g1 = add_node u id g; g2 = add_node v id g1
      in g2\<lparr> g_edges := insert (u, v) (g_edges g2) \<rparr>)"

subsection \<open>The inputs of a scheduler call\<close>

text \<open>
  \<^item> the schedule: a dictionary from entry names to
    \<^verbatim>\<open>{'solve': key, 'clear': key, 'reduce': [field names]}\<close>;
  \<^item> the problem object: \<^verbatim>\<open>nsrc\<close>, and the optional attributes
    \<^verbatim>\<open>chunksPerWorker\<close> (default \<open>1\<close>, a non-negative integer, so that
    \<^verbatim>\<open>int(round(chunksPerWorker*len(relIDs)))\<close> is the product) and
    \<^verbatim>\<open>ensembleClear\<close> (default \<^verbatim>\<open>False\<close>);
  \<^item> the Remote Interface: \<^verbatim>\<open>useMPI\<close>, \<^verbatim>\<open>endpointName\<close>, and the workers of the
    direct view, each with the value of its global \<^verbatim>\<open>rank\<close> and the keys of its
    \<^verbatim>\<open>localProblems\<close>;
  \<^item> the argument \<^verbatim>\<open>isrcs\<close>: \<^verbatim>\<open>None\<close>, a slice, or anything else.
\<close>

record sched_entry =
  e_solve :: string
  e_clear :: string
  e_reduce :: "string list"

record problem =
  nsrc :: int
  chunksPerWorker :: "nat option"
  ensembleClear :: "bool option"

record remote =
  r_useMPI :: bool
  r_endpointName :: string
  r_workers :: "(int \<times> tag list) list"

datatype pyarg = ArgNone | ArgSlice slice | ArgOther

subsection \<open>The scheduler's local state\<close>

text \<open>
  \<open>s_jobs\<close> is the load-balanced view: every job submitted so far, in order.
  The other fields are the local variables \<^verbatim>\<open>G\<close>, \<^verbatim>\<open>clearJobs\<close>, \<^verbatim>\<open>tailNodes\<close>.
\<close>

record sched_state =
  s_jobs :: "job list"
  s_graph :: graph
  s_clearJobs :: "jid list"
  s_tailNodes :: "label list"

definition lview_apply :: "call \<Rightarrow> jid list \<Rightarrow> jid list \<Rightarrow> sched_state \<Rightarrow> jid \<times> sched_state" where
  "lview_apply c aft fol st =
     (length (s_jobs st),
      st\<lparr> s_jobs := s_jobs st @ [\<lparr> j_call = c, j_after = aft, j_follow = fol \<rparr>] \<rparr>)"

definition on_graph :: "(graph \<Rightarrow> graph) \<Rightarrow> sched_state \<Rightarrow> sched_state" where
  "on_graph f st = st\<lparr> s_graph := f (s_graph st) \<rparr>"

text \<open>
  A slice object defines neither \<^verbatim>\<open>__nonzero__\<close> nor \<^verbatim>\<open>__len__\<close>, so
  \<^verbatim>\<open>if work:\<close> holds for every sub-slice, the empty ones included.
\<close>

definition slice_truthy :: "slice \<Rightarrow> bool" where
  "slice_truthy work = True"

text \<open>
  \<^verbatim>\<open>
  with lview.temp_flags(block=False):
      iworks = 0
      for work in self._subSlice(isrcs, int(round(chunksPerWorker*len(relIDs)))):
          if work:
              job = lview.apply(fnRef, Reference(self.remote.endpointName), tag, work)
              systemJobs.append(job)
              label = 'Compute: %d, %d, %d'%(tag[0], tag[1], iworks)
              systemNodes.append(label)
              G.add_node(label, jobs=[job], subslice=work, tag=tag)
              G.add_edge(tagNode, label)
              iworks += 1
  \<close>
  The loop variables are \<^verbatim>\<open>systemJobs\<close>, \<^verbatim>\<open>systemNodes\<close>, \<^verbatim>\<open>iworks\<close> and the state.
\<close>

fun submit_computes ::
  "string \<Rightarrow> tag \<Rightarrow> label \<Rightarrow> slice list \<Rightarrow> jid list \<times> label list \<times> int \<times> sched_state
     \<Rightarrow> jid list \<times> label list \<times> int \<times> sched_state" where
  "submit_computes fn tag tagNode [] acc = acc"
| "submit_computes fn tag tagNode (work # works) (systemJobs, systemNodes, iworks, st) =
     (if slice_truthy work then
        (let (job, st1) = lview_apply (Solve fn tag work) [] [] st;
             label = ComputeNode tag iworks;
             st2 = on_graph (add_node label
                     (\<lambda>a. a\<lparr> a_jobs := Some [job], a_subslice := Some work, a_tag := Some tag \<rparr>)) st1;
             st3 = on_graph (add_edge tagNode label) st2
         in submit_computes fn tag tagNode works
              (systemJobs @ [job], systemNodes @ [label], iworks + 1, st3))
      else submit_computes fn tag tagNode works (systemJobs, systemNodes, iworks, st))"

text \<open>
  \<^verbatim>\<open>
  for rank in relIDs:
      with lview.temp_flags(block=False, after=systemJobs):
          job = lview.apply(clearRef, Reference(self.remote.endpointName), tag, rank)
          clearJobs.append(job)
          label = 'Wrap: %d, %d, %d'%(tag[0],tag[1], rank)
          G.add_node(label, jobs=[job], tag=tag, rank=rank)
          endNodes[tag].append(label)
          G.add_edge(tagNode, label)
  \<close>
  The accumulator is \<^verbatim>\<open>endNodes[tag]\<close> and the state.
\<close>

fun clear_ensemble ::
  "string \<Rightarrow> tag \<Rightarrow> label \<Rightarrow> jid list \<Rightarrow> int list \<Rightarrow> label list \<times> sched_state
     \<Rightarrow> label list \<times> sched_state" where
  "clear_ensemble fn tag tagNode systemJobs [] acc = acc"
| "clear_ensemble fn tag tagNode systemJobs (rank # ranks) (endNodes, st) =
     (let (job, st1) = lview_apply (Clear fn tag (Some rank)) systemJobs [] st;
          st2 = st1\<lparr> s_clearJobs := s_clearJobs st1 @ [job] \<rparr>;
          label = WrapNode tag rank;
          st3 = on_graph (add_node label
                  (\<lambda>a. a\<lparr> a_jobs := Some [job], a_tag := Some tag, a_rank := Some rank \<rparr>)) st2;
          st4 = on_graph (add_edge tagNode label) st3
      in clear_ensemble fn tag tagNode systemJobs ranks (endNodes @ [label], st4))"

text \<open>
  \<^verbatim>\<open>
  for i, sjob in enumerate(systemJobs):
      with lview.temp_flags(block=False, follow=sjob, after=sjob):
          job = lview.apply(clearRef, Reference(self.remote.endpointName), tag)
          clearJobs.append(job)
          label = 'Wrap: %d, %d, %d'%(tag[0],tag[1],i)
          G.add_node(label, jobs=[job])
          endNodes[tag].append(label)
          G.add_edge(systemNodes[i], label)
  \<close>
  \<^verbatim>\<open>systemNodes\<close> and \<^verbatim>\<open>systemJobs\<close> grow together in \<open>submit_computes\<close>, so
  \<^verbatim>\<open>systemNodes[i]\<close> is in range.
\<close>

fun clear_individual ::
  "string \<Rightarrow> tag \<Rightarrow> label list \<Rightarrow> (nat \<times> jid) list \<Rightarrow> label list \<times> sched_state
     \<Rightarrow> label list \<times> sched_state" where
  "clear_individual fn tag systemNodes [] acc = acc"
| "clear_individual fn tag systemNodes ((i, sjob) # rest) (endNodes, st) =
     (let (job, st1) = lview_apply (Clear fn tag None) [sjob] [sjob] st;
          st2 = st1\<lparr> s_clearJobs := s_clearJobs st1 @ [job] \<rparr>;
          label = WrapNode tag (int i);
          st3 = on_graph (add_node label (\<lambda>a. a\<lparr> a_jobs := Some [job] \<rparr>)) st2;
          st4 = on_graph (add_edge (systemNodes ! i) label) st3
      in clear_individual fn tag systemNodes rest (endNodes @ [label], st4))"

text \<open>
  The body of \<^verbatim>\<open>for tag in tags:\<close>. \<^verbatim>\<open>relIDs\<close> are the ranks of the workers whose
  \<^verbatim>\<open>localProblems\<close> has the tag. \<^verbatim>\<open>_subSlice\<close> may raise; the error is returned with
  the jobs submitted until then.
\<close>

definition relIDs_of :: "remote \<Rightarrow> tag \<Rightarrow> int list" where
  "relIDs_of rem tag = map fst (filter (\<lambda>w. tag \<in> set (snd w)) (r_workers rem))"

definition chunksPerWorker_of :: "problem \<Rightarrow> nat" where
  "chunksPerWorker_of prob = (case chunksPerWorker prob of None \<Rightarrow> 1 | Some c \<Rightarrow> c)"

definition ensembleClear_of :: "problem \<Rightarrow> bool" where
  "ensembleClear_of prob = (case ensembleClear prob of None \<Rightarrow> False | Some b \<Rightarrow> b)"

definition schedule_tag ::
  "problem \<Rightarrow> remote \<Rightarrow> sched_entry \<Rightarrow> slice \<Rightarrow> tag \<Rightarrow> sched_state
     \<Rightarrow> (error \<times> job list) + sched_state" where
  "schedule_tag prob rem ent isrcs tag st0 =
     (let st1 = on_graph (add_edge Beginning (Head tag)) st0;
          relIDs = relIDs_of rem tag
      in case subSlice isrcs (int (chunksPerWorker_of prob * length relIDs)) of
           Inl e \<Rightarrow> Inl (e, s_jobs st1)
         | Inr works \<Rightarrow>
             (let (systemJobs, systemNodes, iworks, st2) =
                    submit_computes (e_solve ent) tag (Head tag) works ([], [], 0, st1);
                  (endNodes, st3) =
                    (if ensembleClear_of prob then
                       clear_ensemble (e_clear ent) tag (WrapTag tag) systemJobs relIDs
                         ([], on_graph (fold (\<lambda>label. add_edge label (WrapTag tag)) systemNodes) st2)
                     else
                       clear_individual (e_clear ent) tag systemNodes
                         (enumerate 0 systemJobs) ([], st2));
                  st4 = on_graph (fold (\<lambda>label. add_edge label (Tail tag)) endNodes) st3
              in Inr (st4\<lparr> s_tailNodes := s_tailNodes st4 @ [Tail tag] \<rparr>)))"

fun schedule_tags ::
  "problem \<Rightarrow> remote \<Rightarrow> sched_entry \<Rightarrow> slice \<Rightarrow> tag list \<Rightarrow> sched_state
     \<Rightarrow> (error \<times> job list) + sched_state" where
  "schedule_tags prob rem ent isrcs [] st = Inr st"
| "schedule_tags prob rem ent isrcs (tag # tags) st =
     (case schedule_tag prob rem ent isrcs tag st of
        Inl err \<Rightarrow> Inl err
      | Inr st' \<Rightarrow> schedule_tags prob rem ent isrcs tags st')"

text \<open>
  \<^verbatim>\<open>
  def reduceLB(self, endpoint, key, after=None):
      repeat = lambda value: (value for i in xrange(len(self.pclient.ids)))
      if self.useMPI:
          with self.lview.temp_flags(block=False, after=after):
              job = self.lview.map(self._reduceJob, xrange(len(self.pclient.ids)),
                                   repeat(0), repeat(endpoint), repeat(key))
          return job
  \<close>
  Without \<^verbatim>\<open>useMPI\<close> nothing is submitted and the result is \<^verbatim>\<open>None\<close>.
\<close>

definition reduceLB :: "remote \<Rightarrow> string \<Rightarrow> jid list \<Rightarrow> sched_state \<Rightarrow> jid option \<times> sched_state" where
  "reduceLB rem key aft st =
     (if r_useMPI rem then
        (let (job, st1) = lview_apply (ReduceMap key (length (r_workers rem))) aft [] st
         in (Some job, st1))
      else (None, st))"

text \<open>
  \<^verbatim>\<open>
  jobs = []
  after = clearJobs
  for label in reduceLabels:
      job = self.problem.remote.reduceLB(Reference(self.remote.endpointName), label, after)
      after = job
      if job is not None:
          jobs.append(job)
  \<close>
  The loop variables are \<^verbatim>\<open>after\<close>, \<^verbatim>\<open>jobs\<close> and the state.
\<close>

fun submit_reductions ::
  "remote \<Rightarrow> string list \<Rightarrow> jid list \<Rightarrow> jid list \<Rightarrow> sched_state \<Rightarrow> jid list \<times> sched_state" where
  "submit_reductions rem [] aft jobs st = (jobs, st)"
| "submit_reductions rem (label # labels) aft jobs st =
     (case reduceLB rem label aft st of
        (None, st1) \<Rightarrow> submit_reductions rem labels [] jobs st1
      | (Some job, st1) \<Rightarrow> submit_reductions rem labels [job] (jobs @ [job]) st1)"

text \<open>
  \<^verbatim>\<open>SystemSolver.__call__(entry, isrcs)\<close>. The look-up \<^verbatim>\<open>self.schedule[entry]\<close> comes
  first; then \<^verbatim>\<open>isrcs\<close> is parsed:
  \<^verbatim>\<open>
  nsrc = self.problem.nsrc
  if isrcs is None:
      isrcs = slice(None)
  elif not isinstance(isrcs, slice):
      raise Exception('Scheduler must run over slice or None!')
  \<close>
  (\<^verbatim>\<open>nsrc\<close> is not used again); then the workers are queried and the tags, the set union
  of their \<^verbatim>\<open>localProblems\<close> keys, are scheduled one after the other:
  \<^verbatim>\<open>
  systemsOnWorkers = dview['%s.localProblems.keys()'%self.remote.endpointName]
  ids = dview['rank']
  tags = set()
  for ltags in systemsOnWorkers:
      tags = tags.union(set(ltags))
  ...
  for tag in tags:
  \<close>
  A Python set is iterated in the order of the slots of its hash table, which the
  language does not specify. The order is a parameter of the embedding: the function
  \<open>slot\<close> gives each tag its place, and the distinct tags are visited by ascending
  \<open>slot\<close> (a \<open>slot\<close> that is injective on the tags describes any iteration order). The
  result is the graph, together with the jobs submitted; an error comes with the jobs
  submitted before it.
\<close>

definition parse_isrcs :: "pyarg \<Rightarrow> error + slice" where
  "parse_isrcs isrcs =
     (case isrcs of
        ArgNone \<Rightarrow> Inr (Slice None None None)
      | ArgSlice s \<Rightarrow> Inr s
      | ArgOther \<Rightarrow> Inl SchedulerError)"

definition all_tags :: "(tag \<Rightarrow> nat) \<Rightarrow> remote \<Rightarrow> tag list" where
  "all_tags slot rem = sort_key slot (remdups (concat (map snd (r_workers rem))))"

definition init_state :: sched_state where
  "init_state = \<lparr> s_jobs = [], s_graph = add_node Beginning id SystemGraph,
                  s_clearJobs = [], s_tailNodes = [] \<rparr>"

definition finish :: "remote \<Rightarrow> sched_entry \<Rightarrow> sched_state \<Rightarrow> graph \<times> job list" where
  "finish rem ent st =
     (let (jobs, st1) = submit_reductions rem (e_reduce ent) (s_clearJobs st) [] st;
          st2 = on_graph (add_node EndNode (\<lambda>a. a\<lparr> a_jobs := Some jobs \<rparr>)) st1;
          st3 = on_graph (fold (\<lambda>node. add_edge node EndNode) (s_tailNodes st2)) st2
      in (s_graph st3, s_jobs st3))"

definition SystemSolver_call ::
  "(tag \<Rightarrow> nat) \<Rightarrow> (string \<rightharpoonup> sched_entry) \<Rightarrow> problem \<Rightarrow> remote \<Rightarrow> string \<Rightarrow> pyarg
     \<Rightarrow> (error \<times> job list) + (graph \<times> job list)" where
  "SystemSolver_call slot schedule prob rem entry isrcs =
     (case schedule entry of
        None \<Rightarrow> Inl (KeyError, [])
      | Some ent \<Rightarrow>
          (case parse_isrcs isrcs of
             Inl e \<Rightarrow> Inl (e, [])
           | Inr sl \<Rightarrow>
               (case schedule_tags prob rem ent sl (all_tags slot rem) init_state of
                  Inl err \<Rightarrow> Inl err
                | Inr st \<Rightarrow> Inr (finish rem ent st))))"

text \<open>
  \<^verbatim>\<open>
  def _hasSystemRank(endpoint, tag, wid):
      global rank
      return (tag in endpoint.localProblems) and (rank == wid)
  \<close>
  evaluated on a worker with the given \<^verbatim>\<open>localProblems\<close> keys and \<^verbatim>\<open>rank\<close>. No job of
  \<^verbatim>\<open>__call__\<close> refers to it.
\<close>

definition hasSystemRank :: "int \<times> tag list \<Rightarrow> tag \<Rightarrow> int \<Rightarrow> bool" where
  "hasSystemRank worker tag wid = (tag \<in> set (snd worker) \<and> fst worker = wid)"

text \<open>
  What the flags of a job let the load balancer do: the job may be given to a worker
  when every job it follows ran on that worker. \<open>ran_on\<close> tells where the earlier jobs
  ran. A job without \<open>follow\<close> may be given to any worker.
\<close>

definition flags_admit :: "(jid \<rightharpoonup> int) \<Rightarrow> job \<Rightarrow> int \<Rightarrow> bool" where
  "flags_admit ran_on j r = list_all (\<lambda>f. ran_on f = Some r) (j_follow j)"

text \<open>
  The examples: one schedule entry with two reductions, and small clusters. In CPython
  2.7 (64-bit) the tuple \<open>(1, 0)\<close> hashes to slot \<open>2\<close> and the tuple \<open>(0, 0)\<close> to slot
  \<open>3\<close> of the eight-slot table of a small set, so the set of these two tags is
  iterated as \<open>(1, 0)\<close>, \<open>(0, 0)\<close>: that is \<open>demo_slot\<close>.
\<close>

definition demo_slot :: "tag \<Rightarrow> nat" where
  "demo_slot T = (if T = (1, 0) then 2 else 3)"

definition demo_schedule :: "string \<rightharpoonup> sched_entry" where
  "demo_schedule = [''forward'' \<mapsto> \<lparr> e_solve = ''solve'', e_clear = ''clear'',
                                      e_reduce = [''u'', ''v''] \<rparr>]"

definition demo_problem :: problem where
  "demo_problem = \<lparr> nsrc = 1, chunksPerWorker = None, ensembleClear = None \<rparr>"

definition two_workers :: "bool \<Rightarrow> remote" where
  "two_workers mpi = \<lparr> r_useMPI = mpi, r_endpointName = ''endpoint'',
                       r_workers = [(0, [(0, 0)]), (1, [(1, 0)])] \<rparr>"

definition one_worker :: remote where
  "one_worker = \<lparr> r_useMPI = True, r_endpointName = ''endpoint'', r_workers = [(0, [(0, 0)])] \<rparr>"

subsection \<open>Vocabulary for the properties of a scheduler call\<close>

text \<open>
  The jobs of a result (also of an error), the \<^verbatim>\<open>jobs\<close> attribute of the \<^verbatim>\<open>'End'\<close>
  node of a returned graph, and the handles of the clear jobs among a list of jobs.
\<close>

definition submitted :: "(error \<times> job list) + (graph \<times> job list) \<Rightarrow> job list" where
  "submitted res = (case res of Inl (e, js) \<Rightarrow> js | Inr (g, js) \<Rightarrow> js)"

definition node_jobs :: "graph \<Rightarrow> label \<Rightarrow> jid list option" where
  "node_jobs g n = (case g_nodes g n of None \<Rightarrow> None | Some a \<Rightarrow> a_jobs a)"

definition end_jobs :: "(error \<times> job list) + (graph \<times> job list) \<Rightarrow> jid list option" where
  "end_jobs res = (case res of Inl err \<Rightarrow> None | Inr (g, js) \<Rightarrow> node_jobs g EndNode)"

definition is_clear :: "job \<Rightarrow> bool" where
  "is_clear j = (case j_call j of Clear f T r \<Rightarrow> True | _ \<Rightarrow> False)"

definition clear_ids :: "job list \<Rightarrow> jid list" where
  "clear_ids js = filter (\<lambda>i. is_clear (js ! i)) [0..<length js]"

text \<open>
  What holds of every job submitted before the reductions: a compute job has no
  \<open>after\<close> and no \<open>follow\<close> and its tag is one of the scheduled tags; no job is a
  reduction. \<open>state_ok\<close> adds that \<^verbatim>\<open>clearJobs\<close> holds the handles of the clear jobs.
\<close>

definition job_ok :: "tag set \<Rightarrow> job \<Rightarrow> bool" where
  "job_ok TS j =
     (case j_call j of
        Solve f T w \<Rightarrow> j_after j = [] \<and> j_follow j = [] \<and> T \<in> TS
      | Clear f T r \<Rightarrow> True
      | ReduceMap k n \<Rightarrow> False)"

definition state_ok :: "tag set \<Rightarrow> sched_state \<Rightarrow> bool" where
  "state_ok TS st = (s_clearJobs st = clear_ids (s_jobs st) \<and> list_all (job_ok TS) (s_jobs st))"

definition demo_slice :: pyarg where
  "demo_slice = ArgSlice (Slice (Some 0) (Some 1) None)"

section \<open>Properties of the work partitioning\<close>

lemma floor_boundary_mono:
  fixes W c i :: int
  assumes "0 \<le> W" "0 < c"
  shows "(i * W) div c \<le> ((i + 1) * W) div c"
proof -
  have "i * W \<le> (i + 1) * W"
    using assms(1) by (simp add: distrib_right)
  then show ?thesis
    using assms(2) by (rule zdiv_mono1)
qed

text \<open>
  C6, as the code has it: for a slice with a stop and \<open>c \<ge> 1\<close> chunks,
  \<^verbatim>\<open>_subSlice\<close> returns exactly \<open>c\<close> sub-slices; the \<open>i\<close>-th runs from
  \<open>start + \<lfloor>i\<cdot>W/c\<rfloor>\<close> to \<open>start + \<lfloor>(i+1)\<cdot>W/c\<rfloor>\<close> (floor division, not rounding);
  the first begins at \<open>start\<close>, the last ends at \<open>stop\<close>, each one ends where the next
  begins, and when \<open>start \<le> stop\<close> no sub-slice has its end before its beginning: they
  cover \<open>[start, stop)\<close> exactly, with no overlap.
\<close>

theorem subSlice_floor_boundaries:
  fixes c e :: int and st sp :: "int option"
  assumes c: "1 \<le> c"
  defines "s0 \<equiv> start_or_0 (Slice st (Some e) sp)"
  shows "\<exists>xs. subSlice (Slice st (Some e) sp) c = Inr xs
           \<and> length xs = nat c
           \<and> (\<forall>i < nat c. xs ! i = Slice (Some (s0 + (int i * (e - s0)) div c))
                                         (Some (s0 + ((int i + 1) * (e - s0)) div c)) None)
           \<and> sl_start (xs ! 0) = Some s0
           \<and> sl_stop (xs ! (nat c - 1)) = Some e
           \<and> (\<forall>i. Suc i < nat c \<longrightarrow> sl_stop (xs ! i) = sl_start (xs ! Suc i))
           \<and> (s0 \<le> e \<longrightarrow> (\<forall>i < nat c. \<forall>a b. sl_start (xs ! i) = Some a
                              \<longrightarrow> sl_stop (xs ! i) = Some b \<longrightarrow> a \<le> b))"
proof -
  let ?f = "\<lambda>i. Slice (Some (s0 + (i * (e - s0)) div c))
                      (Some (s0 + ((i + 1) * (e - s0)) div c)) None"
  let ?xs = "map ?f [0..c - 1]"
  have eq: "subSlice (Slice st (Some e) sp) c = Inr ?xs"
    by (simp add: subSlice_def s0_def Let_def)
  have len: "length ?xs = nat c"
    by simp
  have nth: "?xs ! i = ?f (int i)" if "i < nat c" for i
    using that by (simp add: nth_upto)
  have first: "sl_start (?xs ! 0) = Some s0"
    using c nth [of 0] by simp
  have "int (nat c - 1) + 1 = c"
    using c by simp
  then have "((int (nat c - 1) + 1) * (e - s0)) div c = e - s0"
    using c by simp
  then have lst: "sl_stop (?xs ! (nat c - 1)) = Some e"
    using c nth [of "nat c - 1"] by simp
  have contig: "sl_stop (?xs ! i) = sl_start (?xs ! Suc i)" if "Suc i < nat c" for i
  proof -
    have "i < nat c" using that by simp
    then show ?thesis
      using nth [of i] nth [OF that] by (simp add: add.commute)
  qed
  have mono: "a \<le> b"
    if "s0 \<le> e" "i < nat c" "sl_start (?xs ! i) = Some a" "sl_stop (?xs ! i) = Some b"
    for i a b
  proof -
    have "(int i * (e - s0)) div c \<le> ((int i + 1) * (e - s0)) div c"
      using that(1) c by (intro floor_boundary_mono) simp_all
    then show ?thesis
      using that nth [of i] by simp
  qed
  show ?thesis
    using eq len nth first lst contig mono by blast
qed

theorem subSlice_floor_boundaries_witness:
  "(1::int) \<le> 4
   \<and> subSlice (Slice (Some 0) (Some 10) None) 4
       = Inr [Slice (Some 0) (Some 2) None, Slice (Some 2) (Some 5) None,
              Slice (Some 5) (Some 7) None, Slice (Some 7) (Some 10) None]"
proof -
  have h: "(1::int) \<le> 4" by simp
  obtain xs where xs: "subSlice (Slice (Some 0) (Some 10) None) 4 = Inr xs"
      "length xs = nat 4"
      "\<forall>i < nat 4. xs ! i = Slice (Some (start_or_0 (Slice (Some 0) (Some 10) None)
                 + (int i * (10 - start_or_0 (Slice (Some 0) (Some 10) None))) div 4))
             (Some (start_or_0 (Slice (Some 0) (Some 10) None)
                 + ((int i + 1) * (10 - start_or_0 (Slice (Some 0) (Some 10) None))) div 4)) None"
    using subSlice_floor_boundaries [OF h, of "Some 0" 10 None] by blast
  have "xs = [xs ! 0, xs ! 1, xs ! 2, xs ! 3]"
    using xs(2) by (intro nth_equalityI) (auto simp: nth_Cons' less_Suc_eq numeral_eq_Suc)
  moreover have "xs ! 0 = Slice (Some 0) (Some 2) None" "xs ! 1 = Slice (Some 2) (Some 5) None"
      "xs ! 2 = Slice (Some 5) (Some 7) None" "xs ! 3 = Slice (Some 7) (Some 10) None"
    using xs(3) by (simp_all add: start_or_0_def)
  ultimately show ?thesis
    using xs(1) h by simp
qed

text \<open>
  C6, as the specification words it, fails on the code: for \<^verbatim>\<open>slice(0, 2)\<close> and three
  chunks the rounded boundaries are \<open>0, 1, 1, 2\<close>, the code's are \<open>0, 0, 1, 2\<close>.
\<close>

theorem subSlice_round_counterexample:
  "subSlice (Slice (Some 0) (Some 2) None) 3 \<noteq> Inr (subSlice_round_spec 0 2 3)"
proof -
  have "[0..(2::int)] = [0, 1, 2]"
    by (simp add: upto.simps)
  then show ?thesis
    by (simp add: subSlice_def subSlice_round_spec_def round_boundary_def start_or_0_def
        round_def Let_def)
qed

section \<open>Properties of the Endpoint\<close>

lemma construct_fields_keys:
  assumes "set names \<subseteq> fst ` set spec"
  shows "construct_fields spec names lf
           = Inr (\<lambda>k. if k \<in> set names then map_option (\<lambda>ctor. ctor ()) (map_of spec k) else lf k)"
  using assms
proof (induction names arbitrary: lf)
  case Nil
  then show ?case by simp
next
  case (Cons fn fns)
  from Cons.prems have "fn \<in> fst ` set spec"
    by simp
  then obtain ctor where ctor: "map_of spec fn = Some ctor"
    by (metis domD dom_map_of_conv_image_fst)
  have "construct_fields spec fns (lf(fn \<mapsto> ctor ()))
          = Inr (\<lambda>k. if k \<in> set fns then map_option (\<lambda>ctor. ctor ()) (map_of spec k)
                     else (lf(fn \<mapsto> ctor ())) k)"
    using Cons.prems by (intro Cons.IH) simp
  then show ?case
    using ctor by (auto intro!: ext)
qed

lemma construct_all_fieldspec:
  "construct_fields spec (map fst spec) lf
     = Inr (\<lambda>k. case map_of spec k of None \<Rightarrow> lf k | Some ctor \<Rightarrow> Some (ctor ()))"
proof -
  have "construct_fields spec (map fst spec) lf
          = Inr (\<lambda>k. if k \<in> set (map fst spec)
                     then map_option (\<lambda>ctor. ctor ()) (map_of spec k) else lf k)"
    by (rule construct_fields_keys) simp
  moreover have "(\<lambda>k. if k \<in> set (map fst spec)
                     then map_option (\<lambda>ctor. ctor ()) (map_of spec k) else lf k)
      = (\<lambda>k. case map_of spec k of None \<Rightarrow> lf k | Some ctor \<Rightarrow> Some (ctor ()))"
  proof (rule ext)
    fix k
    show "(if k \<in> set (map fst spec)
           then map_option (\<lambda>ctor. ctor ()) (map_of spec k) else lf k)
        = (case map_of spec k of None \<Rightarrow> lf k | Some ctor \<Rightarrow> Some (ctor ()))"
    proof (cases "map_of spec k")
      case None
      then have "k \<notin> set (map fst spec)"
        by (simp add: map_of_eq_None_iff)
      with None show ?thesis by simp
    next
      case (Some ctor)
      then have "k \<in> set (map fst spec)"
        using map_of_eq_None_iff [of spec k] by auto
      with Some show ?thesis by simp
    qed
  qed
  ultimately show ?thesis by simp
qed

text \<open>
  C10, as the code has it: with a non-null \<^verbatim>\<open>fieldspec\<close>, \<^verbatim>\<open>setupLocalFields([])\<close>
  succeeds and, like the call without argument, stores a freshly constructed container
  under every name of \<^verbatim>\<open>fieldspec\<close>: at least one when \<^verbatim>\<open>fieldspec\<close> is not empty, none
  when it is empty (the Endpoint is then as it was). Unlike the call without argument
  it does not clear \<^verbatim>\<open>localFields\<close> first: an entry whose name is not in \<^verbatim>\<open>fieldspec\<close>
  survives the call with the empty list and is gone after the call without argument.
  No other attribute of the Endpoint changes.
\<close>

theorem setupLocalFields_empty_names:
  assumes "fieldspec ep = Some spec"
  shows "\<exists>ep1 ep2.
           setupLocalFields ep (Some []) = Inr ep1
         \<and> setupLocalFields ep None = Inr ep2
         \<and> (\<forall>fn ctor. map_of spec fn = Some ctor
               \<longrightarrow> localFields ep1 fn = Some (ctor ()) \<and> localFields ep2 fn = Some (ctor ()))
         \<and> (\<forall>fn. map_of spec fn = None
               \<longrightarrow> localFields ep1 fn = localFields ep fn \<and> localFields ep2 fn = None)
         \<and> (spec \<noteq> []
               \<longrightarrow> (\<exists>fn ctor. map_of spec fn = Some ctor \<and> localFields ep1 fn = Some (ctor ())))
         \<and> (spec = [] \<longrightarrow> ep1 = ep)
         \<and> ep1 = ep\<lparr>localFields := localFields ep1\<rparr>
         \<and> ep2 = ep\<lparr>localFields := localFields ep2\<rparr>"
proof -
  let ?new = "\<lambda>lf k. case map_of spec k of None \<Rightarrow> lf k | Some ctor \<Rightarrow> Some (ctor ())"
  have 1: "setupLocalFields ep (Some []) = Inr (ep\<lparr>localFields := ?new (localFields ep)\<rparr>)"
    using assms
    by (simp add: setupLocalFields_def names_or_fieldspec_def construct_all_fieldspec)
  have 2: "setupLocalFields ep None = Inr (ep\<lparr>localFields := ?new Map.empty\<rparr>)"
    using assms
    by (simp add: setupLocalFields_def names_or_fieldspec_def construct_all_fieldspec)
  have 3: "\<exists>fn ctor. map_of spec fn = Some ctor
                    \<and> ?new (localFields ep) fn = Some (ctor ())" if "spec \<noteq> []"
  proof -
    from that obtain fn ctor rest where "spec = (fn, ctor) # rest"
      by (cases spec) auto
    then have "map_of spec fn = Some ctor"
      by simp
    then have "map_of spec fn = Some ctor \<and> ?new (localFields ep) fn = Some (ctor ())"
      by simp
    then show ?thesis
      by blast
  qed
  have 4: "ep\<lparr>localFields := ?new (localFields ep)\<rparr> = ep" if "spec = []"
    using that by simp
  show ?thesis
    unfolding 1 2 using 3 4 by simp
qed

theorem setupLocalFields_empty_names_witness:
  "fieldspec ep_demo = Some [(''u'', \<lambda>_. []), (''v'', \<lambda>_. [])]
   \<and> map_sum id (\<lambda>ep. map (localFields ep) [''u'', ''v'', ''old''])
        (setupLocalFields ep_demo (Some [])) = Inr [Some [], Some [], Some [1, 2]]
   \<and> map_sum id (\<lambda>ep. map (localFields ep) [''u'', ''v'', ''old''])
        (setupLocalFields ep_demo None) = Inr [Some [], Some [], None]"
proof -
  have h: "fieldspec ep_demo = Some [(''u'', \<lambda>_. []), (''v'', \<lambda>_. [])]"
    by (simp add: ep_demo_def)
  from setupLocalFields_empty_names [OF h]
  obtain ep1 ep2 where r: "setupLocalFields ep_demo (Some []) = Inr ep1"
      "setupLocalFields ep_demo None = Inr ep2"
    and new: "\<forall>fn ctor. map_of [(''u'', \<lambda>_. []), (''v'', \<lambda>_. [])] fn = Some ctor
               \<longrightarrow> localFields ep1 fn = Some (ctor ()) \<and> localFields ep2 fn = Some (ctor ())"
    and old: "\<forall>fn. map_of [(''u'', \<lambda>_::unit. []::nat list), (''v'', \<lambda>_. [])] fn = None
               \<longrightarrow> localFields ep1 fn = localFields ep_demo fn \<and> localFields ep2 fn = None"
    by blast
  have "localFields ep1 ''u'' = Some []" "localFields ep2 ''u'' = Some []"
    using new [rule_format, of "''u''" "\<lambda>_. []"] by simp_all
  moreover have "localFields ep1 ''v'' = Some []" "localFields ep2 ''v'' = Some []"
    using new [rule_format, of "''v''" "\<lambda>_. []"] by simp_all
  moreover have "localFields ep1 ''old'' = Some [1, 2]" "localFields ep2 ''old'' = None"
    using old [rule_format, of "''old''"] by (simp_all add: ep_demo_def)
  ultimately show ?thesis
    using h r by simp
qed

text \<open>
  C10, as it is stated, fails on the code: with the non-null, empty
  \<^verbatim>\<open>fieldspec = {}\<close>, \<^verbatim>\<open>[] or self.fieldspec\<close> is the empty dictionary, the loop does
  not run, and \<^verbatim>\<open>setupLocalFields([])\<close> constructs no container: the Endpoint is as it
  was, its \<^verbatim>\<open>localFields\<close> included.
\<close>

theorem setupLocalFields_empty_fieldspec_counterexample:
  "fieldspec (ep_demo\<lparr>fieldspec := Some []\<rparr>) \<noteq> None
   \<and> setupLocalFields (ep_demo\<lparr>fieldspec := Some []\<rparr>) (Some [])
       = Inr (ep_demo\<lparr>fieldspec := Some []\<rparr>)
   \<and> map_sum id (\<lambda>ep. map (localFields ep) [''u'', ''v'', ''old''])
        (setupLocalFields (ep_demo\<lparr>fieldspec := Some []\<rparr>) (Some []))
       = Inr [Some [3], None, Some [1, 2]]"
  by (simp add: setupLocalFields_def names_or_fieldspec_def ep_demo_def)

text \<open>
  C8, as the code has it: \<^verbatim>\<open>setupLocalProblem\<close> makes no check of the tag. It returns
  exactly when the factory, the look-ups of \<^verbatim>\<open>isub\<close>, of the survey and of the tag, and
  the pairing succeed, whatever \<^verbatim>\<open>localProblems\<close> holds; it has then stored the newly
  constructed and paired subproblem under \<^verbatim>\<open>subConfig['tag']\<close>, replacing what was
  stored there, and has left every other tag's entry and every other attribute of the
  Endpoint as they were.
\<close>

theorem setupLocalProblem_overwrites:
  "setupLocalProblem pair ep subConfig = Inr ep'
     \<longleftrightarrow> (\<exists>tag isub survey problem paired.
            subConfig ''tag'' = Some tag \<and> subConfig ''isub'' = Some isub
          \<and> localSurveys ep isub = Some survey
          \<and> problemFactory ep (systemConfig_of (baseSystemConfig ep) subConfig) = Inr problem
          \<and> pair problem survey = Inr paired
          \<and> ep' = ep\<lparr>localProblems := (localProblems ep)(tag \<mapsto> paired)\<rparr>)"
  by (auto simp: setupLocalProblem_def split: sum.splits option.splits)

theorem setupLocalProblem_overwrites_witness:
  "localProblems (ep_demo\<lparr>localProblems := [7 \<mapsto> (10, Some ''survey0'')]\<rparr>) 7
     = Some (10, Some ''survey0'')
   \<and> setupLocalProblem pair_survey
       (ep_demo\<lparr>localProblems := [7 \<mapsto> (10, Some ''survey0'')]\<rparr>) subConfig_b
     = Inr (ep_demo\<lparr>localProblems := [7 \<mapsto> (20, Some ''survey0'')]\<rparr>)"
proof -
  let ?ep = "ep_demo\<lparr>localProblems := [7 \<mapsto> (10, Some ''survey0'')]\<rparr>"
  let ?ep' = "ep_demo\<lparr>localProblems := [7 \<mapsto> (20, Some ''survey0'')]\<rparr>"
  have "subConfig_b ''tag'' = Some 7 \<and> subConfig_b ''isub'' = Some 0
      \<and> localSurveys ?ep 0 = Some ''survey0''
      \<and> problemFactory ?ep (systemConfig_of (baseSystemConfig ?ep) subConfig_b) = Inr (20, None)
      \<and> pair_survey (20, None) ''survey0'' = Inr (20, Some ''survey0'')
      \<and> ?ep' = ?ep\<lparr>localProblems := (localProblems ?ep)(7 \<mapsto> (20, Some ''survey0''))\<rparr>"
    by (simp add: ep_demo_def subConfig_b_def systemConfig_of_def freq_factory_def
        pair_survey_def map_add_def)
  then have "setupLocalProblem pair_survey ?ep subConfig_b = Inr ?ep'"
    using setupLocalProblem_overwrites [of pair_survey ?ep subConfig_b ?ep'] by blast
  then show ?thesis
    by simp
qed

text \<open>
  C8, as the specification words it, fails on the code: on an Endpoint with no
  subproblem, two \<^verbatim>\<open>setupLocalProblem\<close> calls for the same tag \<open>7\<close> both succeed; after
  the first the tag holds the subproblem of frequency \<open>10\<close>, after the second that of
  frequency \<open>20\<close>.
\<close>

theorem setupLocalProblem_twice_counterexample:
  "map_sum id (\<lambda>ep. localProblems ep 7) (setupLocalProblems pair_survey ep_demo [subConfig_a])
     = Inr (Some (10, Some ''survey0''))
   \<and> map_sum id (\<lambda>ep. localProblems ep 7)
       (setupLocalProblems pair_survey ep_demo [subConfig_a, subConfig_b])
     = Inr (Some (20, Some ''survey0''))"
  by (simp add: setupLocalProblem_def ep_demo_def subConfig_a_def subConfig_b_def
      systemConfig_of_def freq_factory_def pair_survey_def map_add_def)

section \<open>Properties of the transport selection\<close>









text \<open>
  Two engines that are MPI singletons, each with \<^verbatim>\<open>PMI_SIZE\<close> set and each of rank
  \<open>0\<close>: \<^verbatim>\<open>ranks.index(1)\<close> raises \<^verbatim>\<open>ValueError\<close> and the constructor does not return.
\<close>

lemma useMPI_init_singletons_raise:
  "every_worker_has_indicator singleton_cluster
   \<and> useMPI_init None singleton_cluster = Inl ValueError"
  by (simp add: every_worker_has_indicator_def has_indicator_def singleton_cluster_def
      useMPI_init_def MPI_BELLWETHERS_def DEFAULT_MPI_def getenv_truthy_def mpi_setup_def
      upt_rec)

section \<open>Properties of the collectives\<close>

lemma fold_add_vals:
  fixes a :: "'a::monoid_add"
  shows "fold_add (Val a) (map Val vs) = Inr (Val (a + sum_list vs))"
  by (induction vs arbitrary: a) (simp_all add: np_add_def add.assoc)

lemma reduce_np_add_vals:
  fixes vs :: "'a::monoid_add list"
  assumes "vs \<noteq> []"
  shows "reduce_np_add (map Val vs) = Inr (Val (sum_list vs))"
  using assms by (cases vs) (simp_all add: reduce_np_add_def fold_add_vals)

lemma all_ok_Inr: "all_ok (map (\<lambda>x. Inr (f x)) xs) = Inr (map f xs)"
  by (induction xs) simp_all

lemma dview_pull_vals:
  assumes "map (\<lambda>ns. ns key) (dview cl) = map (\<lambda>v. Some (Val v)) vs"
  shows "dview_pull cl key = Inr (map Val vs)"
proof -
  have "map (\<lambda>ns. eval_name ns key) (dview cl)
          = map (\<lambda>r. case r of None \<Rightarrow> Inl NameError | Some v \<Rightarrow> Inr v)
              (map (\<lambda>ns. ns key) (dview cl))"
    by (simp add: eval_name_def)
  also have "\<dots> = map (\<lambda>v. Inr (Val v)) vs"
    unfolding assms by simp
  finally show ?thesis
    by (simp add: dview_pull_def all_ok_Inr)
qed

lemma dview_del_bound:
  "dview_del key \<lparr> e0 = ns0(key \<mapsto> v), others = map (\<lambda>ns. ns(key \<mapsto> w)) nss \<rparr>
     = Inr \<lparr> e0 = ns0(key := None), others = map (\<lambda>ns. ns(key := None)) nss \<rparr>"
proof -
  have "map (del_name key) (map (\<lambda>ns. ns(key \<mapsto> w)) nss)
          = map (\<lambda>ns. Inr (ns(key := None))) nss"
    by (simp add: del_name_def)
  then have "all_ok (map (del_name key) (map (\<lambda>ns. ns(key \<mapsto> w)) nss))
          = Inr (map (\<lambda>ns. ns(key := None)) nss)"
    by (simp only: all_ok_Inr)
  then show ?thesis
    by (simp add: dview_del_def del_name_def del: map_map)
qed

text \<open>
  C5: when the key is bound to a numeric value on every worker, \<^verbatim>\<open>reduce(key)\<close>
  returns the sum of the workers' values, in collective mode and in star mode alike.
  (With values that are arrays, or pairs as in the example, the sum of \<open>'a\<close> is the
  sum component by component.)
\<close>

theorem reduce_sums_both_modes:
  fixes vs :: "'a::monoid_add list"
  assumes "map (\<lambda>ns. ns key) (dview cl) = map (\<lambda>v. Some (Val v)) vs"
  shows "map_sum id fst (reduce True key cl) = Inr (Val (sum_list vs))
       \<and> map_sum id fst (reduce False key cl) = Inr (Val (sum_list vs))"
proof -
  from assms have ne: "vs \<noteq> []"
    by (auto simp: dview_def)
  have pull: "dview_pull cl key = Inr (map Val vs)"
    using assms by (rule dview_pull_vals)
  have red: "reduce_np_add (map Val vs) = Inr (Val (sum_list vs))"
    using ne by (rule reduce_np_add_vals)
  have star: "map_sum id fst (reduce False key cl) = Inr (Val (sum_list vs))"
    by (simp add: reduce_def andthen_def pull red)
  have "comm_reduce (temp key) key cl
          = Inr \<lparr> e0 = (e0 cl)(temp key \<mapsto> Val (sum_list vs)),
                  others = map (\<lambda>ns. ns(temp key \<mapsto> PyNone)) (others cl) \<rparr>"
    by (simp add: comm_reduce_def pull red)
  then have mpi: "map_sum id fst (reduce True key cl) = Inr (Val (sum_list vs))"
    by (simp add: reduce_def andthen_def e0_pull_def eval_name_def dview_del_bound)
  from mpi star show ?thesis ..
qed

text \<open>The definitions that an evaluation of a method on a concrete cluster unfolds.\<close>

lemmas remote_eval =
  reduce_def remoteDifference_def remoteOpGatherFirst_def remoteSrcEstGatherFirst_def
  getitem_def setitem_def reduceMul_def
  andthen_def comm_reduce_def comm_gather_def comm_bcast_def e0_binop_def e0_pull_def
  e0_push_def e0_del_def dview_del_def dview_pull_def dview_push_def dview_def eval_name_def
  del_name_def reduce_np_add_def np_add_def temp_def bound_names_def srcest_def

theorem reduce_sums_both_modes_witness:
  "map (\<lambda>ns. ns ''u'') (dview pair_cluster) = map (\<lambda>v. Some (Val v)) [(1, 2), (3, 4)]
   \<and> map_sum id fst (reduce True ''u'' pair_cluster) = Inr (Val (4, 6))
   \<and> map_sum id fst (reduce False ''u'' pair_cluster) = Inr (Val (4, 6))"
proof -
  have h: "map (\<lambda>ns. ns ''u'') (dview pair_cluster)
             = map (\<lambda>v. Some (Val v)) [(1, 2), (3, 4)]"
    by (simp add: dview_def pair_cluster_def)
  from reduce_sums_both_modes [OF h] show ?thesis
    using h by simp
qed

text \<open>
  C7 fails on the code. On two workers in collective mode, with \<open>a\<close> and \<open>b\<close> bound to
  numbers on both, \<^verbatim>\<open>remoteDifference('a', 'b', 'r')\<close> stores the difference \<open>9\<close> under
  \<open>r\<close> on both workers and deletes \<^verbatim>\<open>temp_a\<close> and \<^verbatim>\<open>temp_b\<close> on \<^verbatim>\<open>e0\<close> only: on the
  other worker, where \<^verbatim>\<open>comm.reduce\<close> bound them to \<^verbatim>\<open>None\<close>, they remain.
\<close>

theorem remoteDifference_leaves_temporaries:
  "map_sum id (\<lambda>cl. map (\<lambda>ns. map ns [''r'', ''temp_a'', ''temp_b'']) (dview cl))
       (remoteDifference True ''a'' ''b'' ''r'' diff_cluster)
     = Inr [[Some (Val 9), None, None], [Some (Val 9), Some PyNone, Some PyNone]]"
  by (simp add: remote_eval diff_cluster_def)

text \<open>
  The sibling methods on the same cluster: \<^verbatim>\<open>reduce\<close> and \<^verbatim>\<open>reduceMul\<close> delete their
  temporaries through the direct view and leave none; \<^verbatim>\<open>__getitem__\<close> and
  \<^verbatim>\<open>remoteOpGatherFirst\<close> leave \<^verbatim>\<open>temp_a\<close> on the worker that is not \<^verbatim>\<open>e0\<close>;
  \<^verbatim>\<open>__setitem__\<close> makes no temporary.
\<close>

lemma reduce_deletes_temporary:
  "map_sum id (\<lambda>r. (fst r, bound_names [''temp_a''] (snd r))) (reduce True ''a'' diff_cluster)
     = Inr (Val 12, [[], []])"
  by (simp add: remote_eval diff_cluster_def)

lemma getitem_leaves_temporary:
  "map_sum id (\<lambda>r. (fst r, bound_names [''temp_a''] (snd r))) (getitem True ''a'' diff_cluster)
     = Inr (Gathered [Val 5, Val 7], [[], [''temp_a'']])"
  by (simp add: remote_eval diff_cluster_def)

lemma remoteOpGatherFirst_leaves_temporary:
  "map_sum id (bound_names [''temp_a''])
       (remoteOpGatherFirst True (-) ''a'' ''b'' ''r'' diff_cluster)
     = Inr [[], [''temp_a'']]"
  by (simp add: remote_eval diff_cluster_def)

lemma reduceMul_deletes_temporaries:
  "map_sum id (\<lambda>r. (fst r, bound_names [''temp_a'', ''temp_b'', ''temp_ab''] (snd r)))
      (reduceMul (\<lambda>n x. None) True ''a'' ''b'' None diff_cluster)
     = Inr (Val 36, [[], []])"
  by (simp add: remote_eval diff_cluster_def)

lemma setitem_makes_no_temporary:
  "map_sum id (\<lambda>cl. map (\<lambda>ns. map ns [''k'', ''temp_k'']) (dview cl))
      (setitem True ''k'' (Val 4) diff_cluster)
     = Inr [[Some (Val 4), None], [Some (Val 4), None]]"
  by (simp add: remote_eval diff_cluster_def)

text \<open>
  C3 fails on the code in collective mode. On two workers whose \<open>d\<close> is \<open>1\<close> and \<open>2\<close>
  and whose \<open>u\<close> is \<open>3\<close>, \<^verbatim>\<open>remoteSrcEstGatherFirst('s', 'd', 'u')\<close> stores \<open>3\<close> under
  \<open>s\<close> on both workers in collective mode (the estimate from the \<open>d\<close> of \<^verbatim>\<open>e0\<close> alone:
  \<open>3\<cdot>1 / 1\<cdot>1\<close>), and \<open>1\<close> in star mode, which is the value of the specification's
  formula with \<open>reduce(d) = 3\<close>.
\<close>

theorem remoteSrcEstGatherFirst_collective_skips_reduce:
  "map_sum id (\<lambda>cl. map (\<lambda>ns. ns ''s'') (dview cl))
       (remoteSrcEstGatherFirst scalar_ops True ''s'' ''d'' ''u'' False srcest_cluster)
     = Inr [Some (Val 3), Some (Val 3)]
   \<and> map_sum id (\<lambda>cl. map (\<lambda>ns. ns ''s'') (dview cl))
       (remoteSrcEstGatherFirst scalar_ops False ''s'' ''d'' ''u'' False srcest_cluster)
     = Inr [Some (Val 1), Some (Val 1)]
   \<and> srcest_spec scalar_ops [1, 2] 3 = 1"
  by (simp add: remote_eval srcest_cluster_def scalar_ops_def srcest_spec_def)

section \<open>Properties of the scheduler\<close>

lemma clear_ids_snoc:
  "clear_ids (js @ [j]) = clear_ids js @ (if is_clear j then [length js] else [])"
proof -
  have "filter (\<lambda>i. is_clear ((js @ [j]) ! i)) [0..<length js]
          = filter (\<lambda>i. is_clear (js ! i)) [0..<length js]"
    by (rule filter_cong) (simp_all add: nth_append)
  then show ?thesis
    by (simp add: clear_ids_def)
qed

lemma on_graph_fields:
  "s_jobs (on_graph f st) = s_jobs st" "s_clearJobs (on_graph f st) = s_clearJobs st"
  "s_tailNodes (on_graph f st) = s_tailNodes st"
  by (simp_all add: on_graph_def)

lemma state_ok_on_graph: "state_ok TS (on_graph f st) = state_ok TS st"
  by (simp add: state_ok_def on_graph_fields)

lemma state_ok_solve:
  assumes "state_ok TS st" "tag \<in> TS"
  shows "state_ok TS (snd (lview_apply (Solve fn tag work) [] [] st))"
  using assms
  by (simp add: state_ok_def lview_apply_def clear_ids_snoc is_clear_def job_ok_def)

lemma state_ok_clear:
  assumes "state_ok TS st" "lview_apply (Clear fn tag r) aft fol st = (job, st1)"
  shows "state_ok TS (st1\<lparr> s_clearJobs := s_clearJobs st1 @ [job] \<rparr>)"
  using assms
  by (auto simp: state_ok_def lview_apply_def clear_ids_snoc is_clear_def job_ok_def)

lemma submit_computes_ok:
  assumes "state_ok TS st" "tag \<in> TS"
      and "submit_computes fn tag tagNode works (sj, sn, iw, st) = (sj', sn', iw', st')"
  shows "state_ok TS st'"
  using assms
proof (induction works arbitrary: sj sn iw st)
  case Nil
  then show ?case by simp
next
  case (Cons work works)
  let ?st1 = "snd (lview_apply (Solve fn tag work) [] [] st)"
  have ok1: "state_ok TS ?st1"
    using Cons.prems(1,2) by (rule state_ok_solve)
  from Cons.prems(3) obtain sj1 sn1 iw1 st3 where
    step: "submit_computes fn tag tagNode works (sj1, sn1, iw1, st3) = (sj', sn', iw', st')"
    and st3: "state_ok TS st3 = state_ok TS ?st1"
    by (simp add: slice_truthy_def Let_def split: prod.splits)
       (metis state_ok_on_graph snd_conv)
  from ok1 st3 have "state_ok TS st3" by simp
  then show ?case
    using Cons.IH Cons.prems(2) step by blast
qed

lemma clear_ensemble_ok:
  assumes "state_ok TS st"
      and "clear_ensemble fn tag tagNode systemJobs ranks (en, st) = (en', st')"
  shows "state_ok TS st'"
  using assms
proof (induction ranks arbitrary: en st)
  case Nil
  then show ?case by simp
next
  case (Cons rank ranks)
  obtain job st1 where ap: "lview_apply (Clear fn tag (Some rank)) systemJobs [] st = (job, st1)"
    by (cases "lview_apply (Clear fn tag (Some rank)) systemJobs [] st")
  let ?st2 = "st1\<lparr> s_clearJobs := s_clearJobs st1 @ [job] \<rparr>"
  have ok2: "state_ok TS ?st2"
    using Cons.prems(1) ap by (rule state_ok_clear)
  from Cons.prems(2) ap obtain en1 st4 where
    step: "clear_ensemble fn tag tagNode systemJobs ranks (en1, st4) = (en', st')"
    and st4: "state_ok TS st4 = state_ok TS ?st2"
    by (simp add: Let_def state_ok_on_graph)
  from ok2 st4 have "state_ok TS st4" by simp
  then show ?case
    using Cons.IH step by blast
qed

lemma clear_individual_ok:
  assumes "state_ok TS st"
      and "clear_individual fn tag systemNodes sjobs (en, st) = (en', st')"
  shows "state_ok TS st'"
  using assms
proof (induction sjobs arbitrary: en st)
  case Nil
  then show ?case by simp
next
  case (Cons isjob rest)
  obtain i sjob where isjob: "isjob = (i, sjob)"
    by (cases isjob)
  obtain job st1 where ap: "lview_apply (Clear fn tag None) [sjob] [sjob] st = (job, st1)"
    by (cases "lview_apply (Clear fn tag None) [sjob] [sjob] st")
  let ?st2 = "st1\<lparr> s_clearJobs := s_clearJobs st1 @ [job] \<rparr>"
  have ok2: "state_ok TS ?st2"
    using Cons.prems(1) ap by (rule state_ok_clear)
  from Cons.prems(2) ap isjob obtain en1 st4 where
    step: "clear_individual fn tag systemNodes rest (en1, st4) = (en', st')"
    and st4: "state_ok TS st4 = state_ok TS ?st2"
    by (simp add: Let_def state_ok_on_graph)
  from ok2 st4 have "state_ok TS st4" by simp
  then show ?case
    using Cons.IH step by blast
qed

lemma schedule_tag_ok:
  assumes "state_ok TS st" "tag \<in> TS"
      and "schedule_tag prob rem ent isrcs tag st = Inr st'"
  shows "state_ok TS st'"
proof -
  let ?st1 = "on_graph (add_edge Beginning (Head tag)) st"
  have ok1: "state_ok TS ?st1"
    using assms(1) by (simp add: state_ok_on_graph)
  from assms(3) obtain works where
    works: "subSlice isrcs (int (chunksPerWorker_of prob * length (relIDs_of rem tag))) = Inr works"
    by (auto simp: schedule_tag_def Let_def split: sum.splits)
  obtain sj sn iw st2 where
    comp: "submit_computes (e_solve ent) tag (Head tag) works ([], [], 0, ?st1) = (sj, sn, iw, st2)"
    by (metis prod_cases4)
  have ok2: "state_ok TS st2"
    using ok1 assms(2) comp by (rule submit_computes_ok)
  show ?thesis
  proof (cases "ensembleClear_of prob")
    case True
    let ?st2' = "on_graph (fold (\<lambda>label. add_edge label (WrapTag tag)) sn) st2"
    obtain en st3 where
      cl: "clear_ensemble (e_clear ent) tag (WrapTag tag) sj (relIDs_of rem tag) ([], ?st2') = (en, st3)"
      by (metis surj_pair)
    have "state_ok TS ?st2'"
      using ok2 by (simp add: state_ok_on_graph)
    then have ok3: "state_ok TS st3"
      using cl by (rule clear_ensemble_ok)
    from assms(3) works comp cl True
    have "st' = (on_graph (fold (\<lambda>label. add_edge label (Tail tag)) en) st3)
                 \<lparr> s_tailNodes := s_tailNodes (on_graph (fold (\<lambda>label. add_edge label (Tail tag)) en) st3) @ [Tail tag] \<rparr>"
      by (simp add: schedule_tag_def Let_def)
    then show ?thesis
      using ok3 by (simp add: state_ok_def on_graph_fields)
  next
    case False
    obtain en st3 where
      cl: "clear_individual (e_clear ent) tag sn (enumerate 0 sj) ([], st2) = (en, st3)"
      by (metis surj_pair)
    have ok3: "state_ok TS st3"
      using ok2 cl by (rule clear_individual_ok)
    from assms(3) works comp cl False
    have "st' = (on_graph (fold (\<lambda>label. add_edge label (Tail tag)) en) st3)
                 \<lparr> s_tailNodes := s_tailNodes (on_graph (fold (\<lambda>label. add_edge label (Tail tag)) en) st3) @ [Tail tag] \<rparr>"
      by (simp add: schedule_tag_def Let_def)
    then show ?thesis
      using ok3 by (simp add: state_ok_def on_graph_fields)
  qed
qed

lemma schedule_tags_ok:
  assumes "state_ok TS st" "set tags \<subseteq> TS"
      and "schedule_tags prob rem ent isrcs tags st = Inr st'"
  shows "state_ok TS st'"
  using assms
proof (induction tags arbitrary: st)
  case Nil
  then show ?case by simp
next
  case (Cons tag tags)
  from Cons.prems(3) obtain st1 where
    one: "schedule_tag prob rem ent isrcs tag st = Inr st1"
    and rest: "schedule_tags prob rem ent isrcs tags st1 = Inr st'"
    by (auto split: sum.splits)
  have "state_ok TS st1"
    using Cons.prems(1) _ one by (rule schedule_tag_ok) (use Cons.prems(2) in simp)
  then show ?case
    using Cons.IH Cons.prems(2) rest by simp
qed

lemma init_state_ok: "state_ok TS init_state"
  by (simp add: state_ok_def init_state_def clear_ids_def)

lemma submit_reductions_star:
  assumes "\<not> r_useMPI rem"
  shows "submit_reductions rem labels aft jobs st = (jobs, st)"
  using assms by (induction labels arbitrary: aft) (simp_all add: reduceLB_def)

lemma submit_reductions_mpi:
  assumes "r_useMPI rem"
  shows "\<exists>new. submit_reductions rem labels aft jobs st
                 = (jobs @ [length (s_jobs st)..<length (s_jobs st) + length labels],
                    st\<lparr> s_jobs := s_jobs st @ new \<rparr>)
             \<and> length new = length labels
             \<and> (\<forall>k < length labels.
                   new ! k = \<lparr> j_call = ReduceMap (labels ! k) (length (r_workers rem)),
                               j_after = (if k = 0 then aft else [length (s_jobs st) + k - 1]),
                               j_follow = [] \<rparr>)"
proof (induction labels arbitrary: aft jobs st)
  case Nil
  then show ?case by simp
next
  case (Cons label labels)
  let ?n = "length (s_jobs st)"
  let ?j = "\<lparr> j_call = ReduceMap label (length (r_workers rem)), j_after = aft, j_follow = [] \<rparr>"
  let ?st1 = "st\<lparr> s_jobs := s_jobs st @ [?j] \<rparr>"
  have step: "submit_reductions rem (label # labels) aft jobs st
                = submit_reductions rem labels [?n] (jobs @ [?n]) ?st1"
    using assms by (simp add: reduceLB_def lview_apply_def)
  from Cons.IH [of "[?n]" "jobs @ [?n]" ?st1]
  obtain new where
    run: "submit_reductions rem labels [?n] (jobs @ [?n]) ?st1
            = ((jobs @ [?n]) @ [length (s_jobs ?st1)..<length (s_jobs ?st1) + length labels],
               ?st1\<lparr> s_jobs := s_jobs ?st1 @ new \<rparr>)"
    and len: "length new = length labels"
    and nth: "\<forall>k < length labels.
                new ! k = \<lparr> j_call = ReduceMap (labels ! k) (length (r_workers rem)),
                            j_after = (if k = 0 then [?n] else [length (s_jobs ?st1) + k - 1]),
                            j_follow = [] \<rparr>"
    by blast
  have ids: "(jobs @ [?n]) @ [length (s_jobs ?st1)..<length (s_jobs ?st1) + length labels]
               = jobs @ [?n..<?n + length (label # labels)]"
  proof -
    have "[?n..<?n + length (label # labels)] = ?n # [Suc ?n..<Suc ?n + length labels]"
      using upt_conv_Cons [of ?n "?n + length (label # labels)"] by simp
    then show ?thesis by simp
  qed
  have st: "?st1\<lparr> s_jobs := s_jobs ?st1 @ new \<rparr> = st\<lparr> s_jobs := s_jobs st @ (?j # new) \<rparr>"
    by simp
  have nth': "(?j # new) ! k
                = \<lparr> j_call = ReduceMap ((label # labels) ! k) (length (r_workers rem)),
                    j_after = (if k = 0 then aft else [?n + k - 1]), j_follow = [] \<rparr>"
    if "k < length (label # labels)" for k
  proof (cases k)
    case 0
    then show ?thesis by simp
  next
    case (Suc k')
    with that have "k' < length labels" by simp
    with nth have "new ! k' = \<lparr> j_call = ReduceMap (labels ! k') (length (r_workers rem)),
                            j_after = (if k' = 0 then [?n] else [length (s_jobs ?st1) + k' - 1]),
                            j_follow = [] \<rparr>"
      by blast
    then show ?thesis
      using Suc by (cases k') simp_all
  qed
  show ?case
    apply (rule exI [of _ "?j # new"])
    using step run ids st len nth' by (simp del: upt_Suc)
qed

lemma node_jobs_add_node_id: "node_jobs (add_node n id g) m = node_jobs g m"
  by (simp add: node_jobs_def add_node_def no_attrs_def split: option.splits)

lemma node_jobs_add_edge: "node_jobs (add_edge u v g) m = node_jobs g m"
proof -
  have "node_jobs (add_edge u v g) m = node_jobs (add_node v id (add_node u id g)) m"
    by (simp add: add_edge_def Let_def node_jobs_def)
  then show ?thesis
    by (simp add: node_jobs_add_node_id)
qed

lemma node_jobs_fold_add_edge:
  "node_jobs (fold (\<lambda>node. add_edge node v) ns g) m = node_jobs g m"
  by (induction ns arbitrary: g) (simp_all add: node_jobs_add_edge)

lemma node_jobs_set: "node_jobs (add_node n (\<lambda>a. a\<lparr> a_jobs := Some js \<rparr>) g) n = Some js"
  by (simp add: node_jobs_def add_node_def)

lemma finish_end_jobs:
  assumes "submit_reductions rem (e_reduce ent) (s_clearJobs st) [] st = (jobs, st1)"
  shows "finish rem ent st = (fst (finish rem ent st), s_jobs st1)"
    and "node_jobs (fst (finish rem ent st)) EndNode = Some jobs"
  using assms
  by (simp_all add: finish_def Let_def on_graph_def node_jobs_fold_add_edge node_jobs_set)

lemma call_Inr:
  assumes "SystemSolver_call slot schedule prob rem entry isrcs = Inr (g, js)"
  obtains ent sl st where "schedule entry = Some ent" "parse_isrcs isrcs = Inr sl"
    "schedule_tags prob rem ent sl (all_tags slot rem) init_state = Inr st"
    "finish rem ent st = (g, js)"
  using assms by (auto simp: SystemSolver_call_def split: option.splits sum.splits)

lemma call_shape:
  assumes run: "SystemSolver_call slot schedule prob rem entry isrcs = Inr (g, js)"
      and ent: "schedule entry = Some ent"
  shows "\<exists>pre red.
           js = pre @ red
         \<and> list_all (job_ok (set (all_tags slot rem))) pre
         \<and> (if r_useMPI rem then
              length red = length (e_reduce ent)
              \<and> (\<forall>k < length (e_reduce ent).
                    red ! k = \<lparr> j_call = ReduceMap (e_reduce ent ! k) (length (r_workers rem)),
                                j_after = (if k = 0 then clear_ids pre else [length pre + k - 1]),
                                j_follow = [] \<rparr>)
              \<and> node_jobs g EndNode = Some [length pre..<length pre + length (e_reduce ent)]
            else red = [] \<and> node_jobs g EndNode = Some [])"
proof -
  from run ent obtain sl st where
    tags: "schedule_tags prob rem ent sl (all_tags slot rem) init_state = Inr st"
    and fin: "finish rem ent st = (g, js)"
    by (auto elim!: call_Inr)
  have ok: "state_ok (set (all_tags slot rem)) st"
    using init_state_ok _ tags by (rule schedule_tags_ok) simp
  then have pre_ok: "list_all (job_ok (set (all_tags slot rem))) (s_jobs st)"
    and cj: "s_clearJobs st = clear_ids (s_jobs st)"
    by (simp_all add: state_ok_def)
  show ?thesis
  proof (cases "r_useMPI rem")
    case False
    then have "submit_reductions rem (e_reduce ent) (s_clearJobs st) [] st = ([], st)"
      by (rule submit_reductions_star)
    from finish_end_jobs [OF this] fin
    have "js = s_jobs st" "node_jobs g EndNode = Some []"
      by (metis snd_conv, metis fst_conv)
    then show ?thesis
      using False pre_ok by (intro exI [of _ "s_jobs st"] exI [of _ "[]"]) simp
  next
    case True
    from submit_reductions_mpi [OF True, of "e_reduce ent" "s_clearJobs st" "[]" st]
    obtain new where
      red: "submit_reductions rem (e_reduce ent) (s_clearJobs st) [] st
              = ([] @ [length (s_jobs st)..<length (s_jobs st) + length (e_reduce ent)],
                 st\<lparr> s_jobs := s_jobs st @ new \<rparr>)"
      and len: "length new = length (e_reduce ent)"
      and nth: "\<forall>k < length (e_reduce ent).
                  new ! k = \<lparr> j_call = ReduceMap (e_reduce ent ! k) (length (r_workers rem)),
                              j_after = (if k = 0 then s_clearJobs st
                                         else [length (s_jobs st) + k - 1]),
                              j_follow = [] \<rparr>"
      by blast
    from finish_end_jobs [OF red] fin
    have "js = s_jobs st @ new"
      and "node_jobs g EndNode
             = Some [length (s_jobs st)..<length (s_jobs st) + length (e_reduce ent)]"
      by (metis snd_conv select_convs(1) surjective update_convs(1), metis fst_conv append_Nil)
    then show ?thesis
      using True pre_ok len nth cj
      by (intro exI [of _ "s_jobs st"] exI [of _ new]) simp
  qed
qed

text \<open>The definitions that an evaluation of the scheduler on a concrete cluster unfolds.\<close>

lemmas sched_eval =
  SystemSolver_call_def parse_isrcs_def demo_slot_def demo_schedule_def demo_problem_def two_workers_def
  one_worker_def demo_slice_def all_tags_def init_state_def schedule_tag_def relIDs_of_def
  chunksPerWorker_of_def ensembleClear_of_def subSlice_def start_or_0_def slice_truthy_def
  lview_apply_def on_graph_def finish_def reduceLB_def submitted_def Let_def

lemma demo_run:
  "\<exists>g. SystemSolver_call demo_slot demo_schedule demo_problem (two_workers True) ''forward'' demo_slice
     = Inr (g, 
       [\<lparr>j_call = Solve ''solve'' (1, 0) (Slice (Some 0) (Some 1) None), j_after = [], j_follow = []\<rparr>,
        \<lparr>j_call = Clear ''clear'' (1, 0) None, j_after = [0], j_follow = [0]\<rparr>,
        \<lparr>j_call = Solve ''solve'' (0, 0) (Slice (Some 0) (Some 1) None), j_after = [], j_follow = []\<rparr>,
        \<lparr>j_call = Clear ''clear'' (0, 0) None, j_after = [2], j_follow = [2]\<rparr>,
        \<lparr>j_call = ReduceMap ''u'' 2, j_after = [1, 3], j_follow = []\<rparr>,
        \<lparr>j_call = ReduceMap ''v'' 2, j_after = [4], j_follow = []\<rparr>])"
  by (simp add: sched_eval upto.simps)

text \<open>
  \<^verbatim>\<open>isrcs=None\<close> becomes \<^verbatim>\<open>slice(None)\<close>, whose \<^verbatim>\<open>stop\<close> is \<^verbatim>\<open>None\<close>: as soon as one
  worker hosts one tag, the call raises \<^verbatim>\<open>TypeError\<close> at the first tag.
\<close>

lemma call_None_raises:
  assumes "schedule entry = Some ent" "all_tags slot rem \<noteq> []"
  shows "SystemSolver_call slot schedule prob rem entry ArgNone = Inl (TypeError, [])"
proof -
  from assms(2) obtain tag tags where t: "all_tags slot rem = tag # tags"
    by (cases "all_tags slot rem") auto
  have "schedule_tag prob rem ent (Slice None None None) tag init_state = Inl (TypeError, [])"
    by (simp add: schedule_tag_def subSlice_def Let_def on_graph_def init_state_def)
  then show ?thesis
    using assms(1) t by (simp add: SystemSolver_call_def parse_isrcs_def)
qed

lemma schedule_tag_err:
  assumes "schedule_tag prob rem ent isrcs tag st = Inl (e, js)"
  shows "js = s_jobs st"
  using assms
  by (auto simp: schedule_tag_def Let_def on_graph_def split: sum.splits prod.splits if_splits)

lemma schedule_tags_err:
  assumes "state_ok TS st" "set tags \<subseteq> TS"
      and "schedule_tags prob rem ent isrcs tags st = Inl (e, js)"
  shows "list_all (job_ok TS) js"
  using assms
proof (induction tags arbitrary: st)
  case Nil
  then show ?case by simp
next
  case (Cons tag tags)
  show ?case
  proof (cases "schedule_tag prob rem ent isrcs tag st")
    case (Inl err)
    with Cons.prems(3) have "schedule_tag prob rem ent isrcs tag st = Inl (e, js)"
      by simp
    then have "js = s_jobs st"
      by (rule schedule_tag_err)
    then show ?thesis
      using Cons.prems(1) by (simp add: state_ok_def)
  next
    case (Inr st1)
    have "state_ok TS st1"
      using Cons.prems(1) _ Inr by (rule schedule_tag_ok) (use Cons.prems(2) in simp)
    moreover from Cons.prems(3) Inr
    have "schedule_tags prob rem ent isrcs tags st1 = Inl (e, js)"
      by simp
    ultimately show ?thesis
      using Cons.IH Cons.prems(2) by simp
  qed
qed

lemma all_tags_hosted:
  "T \<in> set (all_tags slot rem) \<longleftrightarrow> (\<exists>wk \<in> set (r_workers rem). T \<in> set (snd wk))"
  by (auto simp: all_tags_def)

lemma solve_job_ok:
  assumes mem: "j \<in> set (submitted (SystemSolver_call slot schedule prob rem entry isrcs))"
      and solve: "j_call j = Solve f T w"
  shows "job_ok (set (all_tags slot rem)) j"
proof (cases "SystemSolver_call slot schedule prob rem entry isrcs")
  case (Inl err)
  obtain e js where err: "err = (e, js)"
    by (cases err)
  from mem Inl err have j: "j \<in> set js"
    by (simp add: submitted_def)
  then have "js \<noteq> []"
    by auto
  with Inl err obtain ent sl where
    "schedule_tags prob rem ent sl (all_tags slot rem) init_state = Inl (e, js)"
    by (auto simp: SystemSolver_call_def split: option.splits sum.splits)
  then have "list_all (job_ok (set (all_tags slot rem))) js"
    using schedule_tags_err [OF init_state_ok subset_refl] by blast
  with j show ?thesis
    by (simp add: list_all_iff)
next
  case (Inr res)
  obtain g js where res: "res = (g, js)"
    by (cases res)
  from mem Inr res have j: "j \<in> set js"
    by (simp add: submitted_def)
  from Inr res obtain ent where ent: "schedule entry = Some ent"
    by (auto simp: SystemSolver_call_def split: option.splits)
  from call_shape [OF Inr [unfolded res] ent] obtain pre red where
    js: "js = pre @ red" and pre: "list_all (job_ok (set (all_tags slot rem))) pre"
    and red: "if r_useMPI rem then
                length red = length (e_reduce ent)
                \<and> (\<forall>k < length (e_reduce ent).
                      red ! k = \<lparr> j_call = ReduceMap (e_reduce ent ! k) (length (r_workers rem)),
                                  j_after = (if k = 0 then clear_ids pre
                                             else [length pre + k - 1]),
                                  j_follow = [] \<rparr>)
                \<and> node_jobs g EndNode = Some [length pre..<length pre + length (e_reduce ent)]
              else red = [] \<and> node_jobs g EndNode = Some []"
    by blast
  have "j \<notin> set red"
  proof
    assume "j \<in> set red"
    then obtain k where k: "k < length red" "red ! k = j"
      by (auto simp: in_set_conv_nth)
    with red have "j_call j = ReduceMap (e_reduce ent ! k) (length (r_workers rem))"
      by (cases "r_useMPI rem") auto
    with solve show False by simp
  qed
  with j js have "j \<in> set pre"
    by simp
  with pre show ?thesis
    by (simp add: list_all_iff)
qed

text \<open>
  C1, as the code has it: every compute job that a scheduler call submits (also one
  that ends in an error) carries neither an \<open>after\<close> nor a \<open>follow\<close> flag; its tag is
  hosted by at least one worker; and its flags admit it on every worker, whatever
  ran before.
\<close>

theorem compute_jobs_carry_no_placement_flag:
  assumes "j \<in> set (submitted (SystemSolver_call slot schedule prob rem entry isrcs))"
      and "j_call j = Solve f T w"
  shows "j_after j = [] \<and> j_follow j = []
       \<and> (\<exists>wk \<in> set (r_workers rem). T \<in> set (snd wk))
       \<and> (\<forall>ran_on r. flags_admit ran_on j r)"
proof -
  from assms have "job_ok (set (all_tags slot rem)) j"
    by (rule solve_job_ok)
  with assms(2) have "j_after j = []" "j_follow j = []" "T \<in> set (all_tags slot rem)"
    by (simp_all add: job_ok_def)
  then show ?thesis
    by (simp add: flags_admit_def all_tags_hosted)
qed

lemma demo_submitted:
  "submitted (SystemSolver_call demo_slot demo_schedule demo_problem (two_workers True) ''forward'' demo_slice)
     = [\<lparr>j_call = Solve ''solve'' (1, 0) (Slice (Some 0) (Some 1) None), j_after = [], j_follow = []\<rparr>,
        \<lparr>j_call = Clear ''clear'' (1, 0) None, j_after = [0], j_follow = [0]\<rparr>,
        \<lparr>j_call = Solve ''solve'' (0, 0) (Slice (Some 0) (Some 1) None), j_after = [], j_follow = []\<rparr>,
        \<lparr>j_call = Clear ''clear'' (0, 0) None, j_after = [2], j_follow = [2]\<rparr>,
        \<lparr>j_call = ReduceMap ''u'' 2, j_after = [1, 3], j_follow = []\<rparr>,
        \<lparr>j_call = ReduceMap ''v'' 2, j_after = [4], j_follow = []\<rparr>]"
proof -
  from demo_run obtain g where
    "SystemSolver_call demo_slot demo_schedule demo_problem (two_workers True) ''forward'' demo_slice
       = Inr (g,
       [\<lparr>j_call = Solve ''solve'' (1, 0) (Slice (Some 0) (Some 1) None), j_after = [], j_follow = []\<rparr>,
        \<lparr>j_call = Clear ''clear'' (1, 0) None, j_after = [0], j_follow = [0]\<rparr>,
        \<lparr>j_call = Solve ''solve'' (0, 0) (Slice (Some 0) (Some 1) None), j_after = [], j_follow = []\<rparr>,
        \<lparr>j_call = Clear ''clear'' (0, 0) None, j_after = [2], j_follow = [2]\<rparr>,
        \<lparr>j_call = ReduceMap ''u'' 2, j_after = [1, 3], j_follow = []\<rparr>,
        \<lparr>j_call = ReduceMap ''v'' 2, j_after = [4], j_follow = []\<rparr>])"
    by blast
  then show ?thesis
    by (simp add: submitted_def)
qed

theorem compute_jobs_carry_no_placement_flag_witness:
  "submitted (SystemSolver_call demo_slot demo_schedule demo_problem (two_workers True) ''forward'' demo_slice) ! 0
      \<in> set (submitted (SystemSolver_call demo_slot demo_schedule demo_problem (two_workers True)
                ''forward'' demo_slice))
   \<and> j_call (submitted (SystemSolver_call demo_slot demo_schedule demo_problem (two_workers True)
                ''forward'' demo_slice) ! 0)
       = Solve ''solve'' (1, 0) (Slice (Some 0) (Some 1) None)
   \<and> j_after (submitted (SystemSolver_call demo_slot demo_schedule demo_problem (two_workers True)
                ''forward'' demo_slice) ! 0) = []
   \<and> j_follow (submitted (SystemSolver_call demo_slot demo_schedule demo_problem (two_workers True)
                ''forward'' demo_slice) ! 0) = []
   \<and> flags_admit Map.empty (submitted (SystemSolver_call demo_slot demo_schedule demo_problem
                (two_workers True) ''forward'' demo_slice) ! 0) 0"
proof -
  let ?js = "submitted (SystemSolver_call demo_slot demo_schedule demo_problem (two_workers True)
               ''forward'' demo_slice)"
  have h1: "?js ! 0 \<in> set ?js"
    by (simp add: demo_submitted)
  have h2: "j_call (?js ! 0) = Solve ''solve'' (1, 0) (Slice (Some 0) (Some 1) None)"
    by (simp add: demo_submitted)
  from compute_jobs_carry_no_placement_flag [OF h1 h2]
  have "j_after (?js ! 0) = []" "j_follow (?js ! 0) = []" "flags_admit Map.empty (?js ! 0) 0"
    by blast+
  with h1 h2 show ?thesis
    by blast
qed

text \<open>
  C1, as the specification words it, fails on the code: on two workers, rank \<open>0\<close>
  hosting tag \<open>(0, 0)\<close> and rank \<open>1\<close> hosting tag \<open>(1, 0)\<close>, the first job submitted is
  the compute job of tag \<open>(1, 0)\<close>; its flags admit it on the worker of rank \<open>0\<close>,
  which does not host the tag (\<^verbatim>\<open>_hasSystemRank\<close> is false there).
\<close>

theorem compute_job_admitted_off_host_counterexample:
  "j_call (submitted (SystemSolver_call demo_slot demo_schedule demo_problem (two_workers True)
                ''forward'' demo_slice) ! 0)
       = Solve ''solve'' (1, 0) (Slice (Some 0) (Some 1) None)
   \<and> flags_admit Map.empty (submitted (SystemSolver_call demo_slot demo_schedule demo_problem
                (two_workers True) ''forward'' demo_slice) ! 0) 0
   \<and> r_workers (two_workers True) ! 0 = (0, [(0, 0)])
   \<and> \<not> hasSystemRank (r_workers (two_workers True) ! 0) (1, 0) 0"
proof -
  have "r_workers (two_workers True) ! 0 = (0, [(0, 0)])"
    by (simp add: two_workers_def)
  then show ?thesis
    by (simp add: demo_submitted flags_admit_def hasSystemRank_def)
qed

text \<open>
  C4, as the code has it: the jobs of a call that returns are the compute and clear
  jobs followed by the reductions. In collective mode there is one reduction per
  field name of the entry, in order; the first waits for all the clear jobs, each
  later one for the reduction before it; and the \<^verbatim>\<open>jobs\<close> of the \<^verbatim>\<open>'End'\<close> node are
  the handles of all the reductions, in order. In star mode no reduction is
  submitted and the \<^verbatim>\<open>jobs\<close> of the \<^verbatim>\<open>'End'\<close> node are empty.
\<close>

theorem reductions_chained_all_at_End:
  assumes "SystemSolver_call slot schedule prob rem entry isrcs = Inr (g, js)"
      and "schedule entry = Some ent"
  shows "\<exists>pre red.
           js = pre @ red
         \<and> (\<forall>j \<in> set pre. \<forall>k n. j_call j \<noteq> ReduceMap k n)
         \<and> (if r_useMPI rem then
              length red = length (e_reduce ent)
              \<and> (\<forall>k < length (e_reduce ent).
                    red ! k = \<lparr> j_call = ReduceMap (e_reduce ent ! k) (length (r_workers rem)),
                                j_after = (if k = 0 then clear_ids pre else [length pre + k - 1]),
                                j_follow = [] \<rparr>)
              \<and> node_jobs g EndNode = Some [length pre..<length pre + length (e_reduce ent)]
            else red = [] \<and> node_jobs g EndNode = Some [])"
proof -
  from call_shape [OF assms] obtain pre red where
    js: "js = pre @ red" and pre: "list_all (job_ok (set (all_tags slot rem))) pre"
    and red: "if r_useMPI rem then
                length red = length (e_reduce ent)
                \<and> (\<forall>k < length (e_reduce ent).
                      red ! k = \<lparr> j_call = ReduceMap (e_reduce ent ! k) (length (r_workers rem)),
                                  j_after = (if k = 0 then clear_ids pre
                                             else [length pre + k - 1]),
                                  j_follow = [] \<rparr>)
                \<and> node_jobs g EndNode = Some [length pre..<length pre + length (e_reduce ent)]
              else red = [] \<and> node_jobs g EndNode = Some []"
    by blast
  have "\<forall>j \<in> set pre. \<forall>k n. j_call j \<noteq> ReduceMap k n"
    using pre by (auto simp: list_all_iff job_ok_def)
  with js red show ?thesis
    by blast
qed

lemma demo_end_jobs:
  "end_jobs (SystemSolver_call demo_slot demo_schedule demo_problem (two_workers True) ''forward'' demo_slice)
     = Some [4, 5]"
  by (simp add: sched_eval upto.simps end_jobs_def node_jobs_def add_node_def add_edge_def
      SystemGraph_def)

lemma demo_star_end_jobs:
  "end_jobs (SystemSolver_call demo_slot demo_schedule demo_problem (two_workers False) ''forward'' demo_slice)
     = Some []"
  by (simp add: sched_eval upto.simps end_jobs_def node_jobs_def add_node_def add_edge_def
      SystemGraph_def)

theorem reductions_chained_all_at_End_witness:
  "end_jobs (SystemSolver_call demo_slot demo_schedule demo_problem (two_workers True) ''forward'' demo_slice)
     = Some [4, 5]
   \<and> j_after (submitted (SystemSolver_call demo_slot demo_schedule demo_problem (two_workers True)
                 ''forward'' demo_slice) ! 5) = [4]"
proof -
  let ?call = "SystemSolver_call demo_slot demo_schedule demo_problem (two_workers True)
                 ''forward'' demo_slice"
  let ?ent = "\<lparr> e_solve = ''solve'', e_clear = ''clear'', e_reduce = [''u'', ''v''] \<rparr>"
  from demo_run obtain g js where run: "?call = Inr (g, js)"
    by blast
  have ent: "demo_schedule ''forward'' = Some ?ent"
    by (simp add: demo_schedule_def)
  have mpi: "r_useMPI (two_workers True)"
    by (simp add: two_workers_def)
  from reductions_chained_all_at_End [OF run ent] mpi obtain pre red where
    js: "js = pre @ red" and len: "length red = 2"
    and nth: "\<forall>k < 2. j_after (red ! k) = (if k = 0 then clear_ids pre else [length pre + k - 1])"
    and endj: "node_jobs g EndNode = Some [length pre..<length pre + 2]"
    by auto
  have sub: "submitted ?call = js"
    by (simp add: run submitted_def)
  have "length (submitted ?call) = 6"
    by (simp add: demo_submitted)
  with sub have "length js = 6"
    by simp
  with js len have lp: "length pre = 4"
    by simp
  have "end_jobs ?call = Some [4..<6]"
    using run endj lp by (simp add: end_jobs_def)
  then have 1: "end_jobs ?call = Some [4, 5]"
    by (simp add: upt_rec)
  have "js ! 5 = red ! 1"
    using js lp by (simp add: nth_append)
  moreover have "j_after (red ! 1) = [4]"
    using nth lp by simp
  ultimately have 2: "j_after (submitted ?call ! 5) = [4]"
    using sub by simp
  from 1 2 show ?thesis ..
qed

text \<open>
  C4, as the specification words it, fails on the code: with the two reductions
  \<open>u\<close> and \<open>v\<close>, submitted as jobs \<open>4\<close> and \<open>5\<close>, the \<^verbatim>\<open>jobs\<close> of the \<^verbatim>\<open>'End'\<close> node are
  \<open>[4, 5]\<close>, not the last reduction's \<open>[5]\<close>.
\<close>

theorem End_holds_every_reduction_counterexample:
  "end_jobs (SystemSolver_call demo_slot demo_schedule demo_problem (two_workers True) ''forward'' demo_slice)
     = Some [4, 5]
   \<and> j_call (submitted (SystemSolver_call demo_slot demo_schedule demo_problem (two_workers True)
                ''forward'' demo_slice) ! 4) = ReduceMap ''u'' 2
   \<and> j_call (submitted (SystemSolver_call demo_slot demo_schedule demo_problem (two_workers True)
                ''forward'' demo_slice) ! 5) = ReduceMap ''v'' 2
   \<and> end_jobs (SystemSolver_call demo_slot demo_schedule demo_problem (two_workers True)
                ''forward'' demo_slice) \<noteq> Some [5]"
  by (simp add: demo_end_jobs demo_submitted)

text \<open>
  C9 fails on the code for the sentinel: on one worker hosting one tag, the call with
  \<^verbatim>\<open>isrcs=None\<close> raises \<^verbatim>\<open>TypeError\<close> (from \<^verbatim>\<open>None - 0\<close> in \<^verbatim>\<open>_subSlice\<close>), with no job
  submitted.
\<close>

theorem scheduler_None_raises_TypeError:
  "SystemSolver_call demo_slot demo_schedule demo_problem one_worker ''forward'' ArgNone
     = Inl (TypeError, [])"
  by (simp add: sched_eval)

end
